theory Spec2Isabelle
  imports Complex_Main
begin

section \<open>FlightScraper: the EasyJetCollector of main.py\<close>

text \<open>
  The development embeds \<^verbatim>\<open>src/main.py\<close>: the collector object, its coordinate
  table, \<^verbatim>\<open>calculate_distance\<close>, \<^verbatim>\<open>get_all_flights\<close>,
  \<^verbatim>\<open>save_to_csv\<close> and the line \<^verbatim>\<open>main\<close> prints for a row.

  Conventions of the embedding.
  \<^item> Python floats are idealised as the real numbers: \<^verbatim>\<open>sin\<close>, \<^verbatim>\<open>cos\<close>,
    \<^verbatim>\<open>sqrt\<close>, \<^verbatim>\<open>atan2\<close> and the arithmetic are exact, so rounding error of the
    binary64 operations is not part of the model. \<^verbatim>\<open>float('inf')\<close> is a value of
    its own in the type of prices.
  \<^item> Exceptions are values: a function that may raise returns \<open>pyerr + 'a\<close>.
  \<^item> Effects are explicit: a \<open>world\<close> holds the HTTP exchanges made so far, the lines
    printed and the files written, and every function with an effect returns the new one.
  \<^item> The network is an oracle \<open>net\<close>: the response to a request may depend on the
    number of exchanges made before it and on the request, so a server that answers the
    same request differently over time is covered.
  \<^item> The network answers a request with no response at all (\<^verbatim>\<open>requests.get\<close> raises),
    or with a reply: a status code and a body. The body is any JSON value, or no JSON at
    all, and \<^verbatim>\<open>get_all_flights\<close> reads it as Python does: a method called on a value
    that has none, a subscript, an iteration or a comparison that the value does not
    support raises the exception Python raises. The exception classes are those of
    requests 2.27 and later, where the error of \<^verbatim>\<open>json()\<close> is a
    \<^verbatim>\<open>RequestException\<close>.
  \<^item> The text of a number in the CSV file (\<^verbatim>\<open>repr\<close> of a float) is a parameter
    of \<open>save_to_csv\<close>, since it is a function of the binary64 value.
\<close>

subsection \<open>Exceptions\<close>

datatype pyerr =
  RequestException string | KeyError string | AttributeError | TypeError | ValueError
  | OSError

subsection \<open>The collector object\<close>

record EasyJetCollector =
  base_url :: string
  headers :: "(string \<times> string) list"
  airport_coords :: "string \<rightharpoonup> real \<times> real"

definition load_airport_coordinates :: "string \<rightharpoonup> real \<times> real" where
  "load_airport_coordinates = map_of
     [(''LGW'', (51.1537, - 0.1821)),
      (''BCN'', (41.2974, 2.0833)),
      (''CDG'', (49.0097, 2.5479))]"

definition init :: "string \<Rightarrow> string \<Rightarrow> EasyJetCollector" where
  "init api_key client_id =
     \<lparr> base_url = ''https://api.easyjet.com/v1'',
       headers = [(''Authorization'', ''Bearer '' @ api_key),
                  (''X-Client-ID'', client_id),
                  (''Accept'', ''application/json'')],
       airport_coords = load_airport_coordinates \<rparr>"

subsection \<open>The functions of the math module and the built-in round\<close>

definition radians :: "real \<Rightarrow> real" where
  "radians x = x * (pi / 180)"

text \<open>\<^verbatim>\<open>math.sqrt\<close> raises \<^verbatim>\<open>ValueError\<close> on a negative argument.\<close>

definition py_sqrt :: "real \<Rightarrow> pyerr + real" where
  "py_sqrt x = (if x < 0 then Inl ValueError else Inr (sqrt x))"

text \<open>\<^verbatim>\<open>math.atan2(y, x)\<close>: the angle of the point \<open>(x, y)\<close>, in \<open>(-pi, pi]\<close>.\<close>

definition atan2 :: "real \<Rightarrow> real \<Rightarrow> real" where
  "atan2 y x =
     (if 0 < x then arctan (y / x)
      else if x < 0 then (if 0 \<le> y then arctan (y / x) + pi else arctan (y / x) - pi)
      else if 0 < y then pi / 2
      else if y < 0 then - (pi / 2)
      else 0)"

text \<open>Rounding to the nearest integer, ties to the even one, as \<^verbatim>\<open>round\<close> does.\<close>

definition round_half_even :: "real \<Rightarrow> int" where
  "round_half_even y =
     (let f = \<lfloor>y\<rfloor>; d = y - of_int f
      in if d < 1 / 2 then f
         else if 1 / 2 < d then f + 1
         else if even f then f else f + 1)"

definition py_round :: "real \<Rightarrow> nat \<Rightarrow> real" where
  "py_round x ndigits = of_int (round_half_even (x * 10 ^ ndigits)) / 10 ^ ndigits"

subsection \<open>calculate_distance\<close>

definition calculate_distance :: "EasyJetCollector \<Rightarrow> string \<Rightarrow> string \<Rightarrow> pyerr + real" where
  "calculate_distance self origin dest =
     (if origin \<notin> dom (airport_coords self) \<or> dest \<notin> dom (airport_coords self)
      then Inr 0
      else
        let (lat1, lon1) = the (airport_coords self origin);
            (lat2, lon2) = the (airport_coords self dest);
            R = 6371;
            lat1 = radians lat1; lon1 = radians lon1;
            lat2 = radians lat2; lon2 = radians lon2;
            dlat = lat2 - lat1;
            dlon = lon2 - lon1;
            a = (sin (dlat / 2))\<^sup>2 + cos lat1 * cos lat2 * (sin (dlon / 2))\<^sup>2
        in case py_sqrt a of
             Inl e \<Rightarrow> Inl e
           | Inr sa \<Rightarrow>
              (case py_sqrt (1 - a) of
                 Inl e \<Rightarrow> Inl e
               | Inr sb \<Rightarrow>
                  let c = 2 * atan2 sa sb;
                      distance = R * c
                  in Inr (py_round distance 2)))"

subsection \<open>Prices: numbers and the sentinel float('inf')\<close>

datatype price = Fin real | PInf

instantiation price :: linorder
begin

fun less_eq_price :: "price \<Rightarrow> price \<Rightarrow> bool" where
  "less_eq_price (Fin a) (Fin b) = (a \<le> b)"
| "less_eq_price _ PInf = True"
| "less_eq_price PInf (Fin b) = False"

definition less_price :: "price \<Rightarrow> price \<Rightarrow> bool" where
  "less_price p q = (p \<le> q \<and> \<not> q \<le> p)"

instance
proof
  fix x y z :: price
  show "(x < y) = (x \<le> y \<and> \<not> y \<le> x)" by (simp add: less_price_def)
  show "x \<le> x" by (cases x) simp_all
  show "x \<le> y \<Longrightarrow> y \<le> z \<Longrightarrow> x \<le> z" by (cases x; cases y; cases z) simp_all
  show "x \<le> y \<Longrightarrow> y \<le> x \<Longrightarrow> x = y" by (cases x; cases y) simp_all
  show "x \<le> y \<or> y \<le> x" by (cases x; cases y) auto
qed

end

subsection \<open>Python values\<close>

text \<open>
  The values \<^verbatim>\<open>response.json()\<close> returns, and \<^verbatim>\<open>float('inf')\<close>. A number is a real,
  whether Python holds it as an int or as a float; \<open>VInf\<close> is the float infinity. An
  object is the list of its items in order, with distinct keys; a string is a list of
  characters. The literals \<^verbatim>\<open>NaN\<close> and \<^verbatim>\<open>-Infinity\<close>, which JSON does not have but
  Python's parser accepts, are outside the model.
\<close>

datatype pyval =
  VNone | VBool bool | VNum real | VInf | VStr string | VList "pyval list"
  | VDict "(string \<times> pyval) list"

text \<open>\<^verbatim>\<open>obj.get(key, default)\<close>: only a dict has the method.\<close>

definition dict_get :: "pyval \<Rightarrow> string \<Rightarrow> pyval \<Rightarrow> pyerr + pyval" where
  "dict_get obj key dflt =
     (case obj of
        VDict items \<Rightarrow> Inr (case map_of items key of None \<Rightarrow> dflt | Some v \<Rightarrow> v)
      | _ \<Rightarrow> Inl AttributeError)"

text \<open>
  \<^verbatim>\<open>obj[key]\<close> with a string key: a dict without the key raises \<^verbatim>\<open>KeyError\<close>, and every
  other value raises \<^verbatim>\<open>TypeError\<close> (a list or a string wants an integer index, the
  others cannot be subscripted).
\<close>

definition py_getitem :: "pyval \<Rightarrow> string \<Rightarrow> pyerr + pyval" where
  "py_getitem obj key =
     (case obj of
        VDict items \<Rightarrow> (case map_of items key of None \<Rightarrow> Inl (KeyError key) | Some v \<Rightarrow> Inr v)
      | _ \<Rightarrow> Inl TypeError)"

text \<open>
  What a \<^verbatim>\<open>for\<close> loop or a generator iterates over: the elements of a list, the keys of
  a dict, the characters of a string; the other values are not iterable.
\<close>

definition py_iter :: "pyval \<Rightarrow> pyerr + pyval list" where
  "py_iter obj =
     (case obj of
        VList xs \<Rightarrow> Inr xs
      | VDict items \<Rightarrow> Inr (map (\<lambda>(k, v). VStr k) items)
      | VStr s \<Rightarrow> Inr (map (\<lambda>c. VStr [c]) s)
      | _ \<Rightarrow> Inl TypeError)"

text \<open>The truth value of \<^verbatim>\<open>if obj:\<close>.\<close>

definition truthy :: "pyval \<Rightarrow> bool" where
  "truthy obj =
     (case obj of
        VNone \<Rightarrow> False
      | VBool b \<Rightarrow> b
      | VNum x \<Rightarrow> x \<noteq> 0
      | VInf \<Rightarrow> True
      | VStr s \<Rightarrow> s \<noteq> []
      | VList xs \<Rightarrow> xs \<noteq> []
      | VDict items \<Rightarrow> items \<noteq> [])"

text \<open>
  Comparison. Numbers compare by value, a bool counting as 0 or 1; strings compare
  character by character; lists compare at their first pair of unequal elements, and by
  length when there is none; every other pair of values raises \<^verbatim>\<open>TypeError\<close>.
\<close>

definition num_of :: "pyval \<Rightarrow> price option" where
  "num_of obj =
     (case obj of
        VBool b \<Rightarrow> Some (Fin (if b then 1 else 0))
      | VNum x \<Rightarrow> Some (Fin x)
      | VInf \<Rightarrow> Some PInf
      | _ \<Rightarrow> None)"

fun str_lt :: "string \<Rightarrow> string \<Rightarrow> bool" where
  "str_lt [] [] = False"
| "str_lt [] (d # t) = True"
| "str_lt (c # s) [] = False"
| "str_lt (c # s) (d # t) = (if c = d then str_lt s t else (of_char c :: nat) < of_char d)"

fun py_eq :: "pyval \<Rightarrow> pyval \<Rightarrow> bool" where
  "py_eq (VList xs) (VList ys) = list_all2 py_eq xs ys"
| "py_eq (VDict a) (VDict b) =
     (length a = length b
      \<and> list_all (\<lambda>(k, v). list_ex (\<lambda>(k', v'). k = k' \<and> py_eq v v') b) a)"
| "py_eq x y =
     (case (num_of x, num_of y) of
        (Some p, Some q) \<Rightarrow> p = q
      | (None, None) \<Rightarrow> x = y
      | _ \<Rightarrow> False)"

fun py_lt :: "pyval \<Rightarrow> pyval \<Rightarrow> pyerr + bool" where
  "py_lt (VList []) (VList []) = Inr False"
| "py_lt (VList []) (VList (y # ys)) = Inr True"
| "py_lt (VList (x # xs)) (VList []) = Inr False"
| "py_lt (VList (x # xs)) (VList (y # ys)) =
     (if py_eq x y then py_lt (VList xs) (VList ys) else py_lt x y)"
| "py_lt (VStr s) (VStr t) = Inr (str_lt s t)"
| "py_lt x y =
     (case (num_of x, num_of y) of
        (Some p, Some q) \<Rightarrow> Inr (p < q)
      | _ \<Rightarrow> Inl TypeError)"

text \<open>
  The built-in \<^verbatim>\<open>min\<close> over a generator \<^verbatim>\<open>f(x) for x in xs\<close>: the first value is the
  candidate, and each later value is computed and then compared with the candidate, which
  it replaces when it is smaller. An error of \<open>f\<close> or of a comparison ends the call; an
  empty generator raises \<^verbatim>\<open>ValueError\<close>.
\<close>

fun py_min_from :: "(pyval \<Rightarrow> pyerr + pyval) \<Rightarrow> pyval \<Rightarrow> pyval list \<Rightarrow> pyerr + pyval" where
  "py_min_from f best [] = Inr best"
| "py_min_from f best (x # xs) =
     (case f x of
        Inl e \<Rightarrow> Inl e
      | Inr item \<Rightarrow>
         (case py_lt item best of
            Inl e \<Rightarrow> Inl e
          | Inr smaller \<Rightarrow> py_min_from f (if smaller then item else best) xs))"

definition py_min :: "(pyval \<Rightarrow> pyerr + pyval) \<Rightarrow> pyval list \<Rightarrow> pyerr + pyval" where
  "py_min f xs =
     (case xs of
        [] \<Rightarrow> Inl ValueError
      | x # rest \<Rightarrow> (case f x of Inl e \<Rightarrow> Inl e | Inr first \<Rightarrow> py_min_from f first rest))"

subsection \<open>The HTTP API\<close>

text \<open>
  A request is what \<^verbatim>\<open>requests.get\<close> is called with. The network answers it with no
  response (a connection error, a timeout: \<^verbatim>\<open>requests.get\<close> raises, with the text
  given), or with a reply: its status code, its body parsed as JSON (\<open>None\<close> when the body
  is not JSON), and the text of the exception that \<^verbatim>\<open>raise_for_status\<close> or \<^verbatim>\<open>json\<close>
  raises on it when one of them does.
\<close>

record request =
  url :: string
  req_headers :: "(string \<times> string) list"
  params :: "(string \<times> pyval) list"

datatype reply = Reply (status_code: nat) (error_text: string) (json_body: "pyval option")

datatype response = NoResponse string | Got reply

type_synonym network = "nat \<Rightarrow> request \<Rightarrow> response"

text \<open>
  A row as \<^verbatim>\<open>get_all_flights\<close> builds it: the distance, the value of the
  \<^verbatim>\<open>destination\<close> field and the value \<^verbatim>\<open>min\<close> returns. \<^verbatim>\<open>save_to_csv\<close> and the printed
  line are modelled on the rows of well-typed responses: the destination a string, the
  price a number or the infinite sentinel.
\<close>

type_synonym flight_row = "real \<times> pyval \<times> pyval"

type_synonym row = "real \<times> string \<times> price"

record world =
  exchanges :: "(request \<times> response) list"
  stdout :: "string list"
  files :: "string \<rightharpoonup> string"
  unwritable :: "string set"

text \<open>\<^verbatim>\<open>requests.get\<close>: the exchange is logged; no response raises.\<close>

definition requests_get :: "network \<Rightarrow> request \<Rightarrow> world \<Rightarrow> (pyerr + reply) \<times> world" where
  "requests_get net req w =
     (let resp = net (length (exchanges w)) req;
          w' = w\<lparr>exchanges := exchanges w @ [(req, resp)]\<rparr>
      in case resp of
           NoResponse msg \<Rightarrow> (Inl (RequestException msg), w')
         | Got r \<Rightarrow> (Inr r, w'))"

text \<open>
  \<^verbatim>\<open>raise_for_status\<close> raises \<^verbatim>\<open>HTTPError\<close> for a status from 400 to 599 and for no
  other; \<^verbatim>\<open>json\<close> raises \<^verbatim>\<open>JSONDecodeError\<close> for a body that is not JSON. Both are
  subclasses of \<^verbatim>\<open>RequestException\<close>. A redirection that \<^verbatim>\<open>requests\<close> follows is not
  seen by the caller: the reply is the one \<^verbatim>\<open>requests.get\<close> returns.
\<close>

definition raise_for_status :: "reply \<Rightarrow> pyerr + unit" where
  "raise_for_status r =
     (if 400 \<le> status_code r \<and> status_code r < 600
      then Inl (RequestException (error_text r)) else Inr ())"

definition json :: "reply \<Rightarrow> pyerr + pyval" where
  "json r =
     (case json_body r of
        None \<Rightarrow> Inl (RequestException (error_text r))
      | Some v \<Rightarrow> Inr v)"

text \<open>
  The three statements both requests go through: \<^verbatim>\<open>requests.get\<close>,
  \<^verbatim>\<open>raise_for_status\<close>, and \<^verbatim>\<open>json().get(key, [])\<close>.
\<close>

definition get_json_field ::
  "network \<Rightarrow> request \<Rightarrow> string \<Rightarrow> world \<Rightarrow> (pyerr + pyval) \<times> world" where
  "get_json_field net req key w =
     (case requests_get net req w of
        (Inl e, w') \<Rightarrow> (Inl e, w')
      | (Inr response, w') \<Rightarrow>
         (case raise_for_status response of
            Inl e \<Rightarrow> (Inl e, w')
          | Inr u \<Rightarrow>
             (case json response of
                Inl e \<Rightarrow> (Inl e, w')
              | Inr data \<Rightarrow> (dict_get data key (VList []), w'))))"

definition print :: "string \<Rightarrow> world \<Rightarrow> world" where
  "print line w = w\<lparr>stdout := stdout w @ [line]\<rparr>"

subsection \<open>get_all_flights\<close>

definition routes_request :: "EasyJetCollector \<Rightarrow> string \<Rightarrow> request" where
  "routes_request self origin_airport =
     \<lparr> url = base_url self @ ''/routes'',
       req_headers = headers self,
       params = [(''departure'', VStr origin_airport)] \<rparr>"

definition flights_request :: "EasyJetCollector \<Rightarrow> string \<Rightarrow> pyval \<Rightarrow> string \<Rightarrow> request" where
  "flights_request self origin_airport destination date =
     \<lparr> url = base_url self @ ''/flights'',
       req_headers = headers self,
       params = [(''origin'', VStr origin_airport),
                 (''destination'', destination),
                 (''outboundDate'', VStr date),
                 (''adult'', VNum 1)] \<rparr>"

text \<open>\<^verbatim>\<open>flight.get('pricing', {}).get('lowestFare', float('inf'))\<close>\<close>

definition lowest_fare :: "pyval \<Rightarrow> pyerr + pyval" where
  "lowest_fare flight =
     (case dict_get flight ''pricing'' (VDict []) of
        Inl e \<Rightarrow> Inl e
      | Inr pricing \<Rightarrow> dict_get pricing ''lowestFare'' VInf)"

text \<open>\<^verbatim>\<open>min(... for flight in flights)\<close>: the generator is made first, then consumed.\<close>

definition lowest_price_of :: "pyval \<Rightarrow> pyerr + pyval" where
  "lowest_price_of flights =
     (case py_iter flights of
        Inl e \<Rightarrow> Inl e
      | Inr items \<Rightarrow> py_min lowest_fare items)"

text \<open>
  \<^verbatim>\<open>calculate_distance\<close> called with the value of the \<^verbatim>\<open>destination\<close> field, whatever
  its type. When the origin is a key of the table, the membership test hashes the
  destination: a list or a dict raises \<^verbatim>\<open>TypeError\<close>, and a value that is not a string is
  no key.
\<close>

definition calculate_distance_of :: "EasyJetCollector \<Rightarrow> string \<Rightarrow> pyval \<Rightarrow> pyerr + real" where
  "calculate_distance_of self origin destination =
     (if origin \<notin> dom (airport_coords self) then Inr 0
      else case destination of
             VStr dest \<Rightarrow> calculate_distance self origin dest
           | VList xs \<Rightarrow> Inl TypeError
           | VDict items \<Rightarrow> Inl TypeError
           | _ \<Rightarrow> Inr 0)"

text \<open>
  The loop over \<^verbatim>\<open>all_destinations\<close>, with the list \<^verbatim>\<open>flight_data\<close> built so far.
  An exception leaves the loop with the world as it is at the raise.
\<close>

fun for_routes ::
  "EasyJetCollector \<Rightarrow> network \<Rightarrow> string \<Rightarrow> string \<Rightarrow> pyval list \<Rightarrow> flight_row list \<Rightarrow> world
   \<Rightarrow> (pyerr + flight_row list) \<times> world" where
  "for_routes self net origin_airport date [] flight_data w = (Inr flight_data, w)"
| "for_routes self net origin_airport date (route # rest) flight_data w =
     (case py_getitem route ''destination'' of
        Inl e \<Rightarrow> (Inl e, w)
      | Inr destination \<Rightarrow>
         (case get_json_field net (flights_request self origin_airport destination date)
                 ''flights'' w of
            (Inl e, w') \<Rightarrow> (Inl e, w')
          | (Inr flights, w') \<Rightarrow>
             if truthy flights then
               (case lowest_price_of flights of
                  Inl e \<Rightarrow> (Inl e, w')
                | Inr lowest_price \<Rightarrow>
                   (case calculate_distance_of self origin_airport destination of
                      Inl e \<Rightarrow> (Inl e, w')
                    | Inr distance \<Rightarrow>
                       for_routes self net origin_airport date rest
                         (flight_data @ [(distance, destination, lowest_price)]) w'))
             else for_routes self net origin_airport date rest flight_data w'))"

text \<open>The body of the \<^verbatim>\<open>try\<close> statement.\<close>

definition get_all_flights_try ::
  "EasyJetCollector \<Rightarrow> network \<Rightarrow> string \<Rightarrow> string \<Rightarrow> world
   \<Rightarrow> (pyerr + flight_row list) \<times> world" where
  "get_all_flights_try self net origin_airport date w =
     (case get_json_field net (routes_request self origin_airport) ''routes'' w of
        (Inl e, w') \<Rightarrow> (Inl e, w')
      | (Inr all_destinations, w') \<Rightarrow>
         (case py_iter all_destinations of
            Inl e \<Rightarrow> (Inl e, w')
          | Inr routes \<Rightarrow> for_routes self net origin_airport date routes [] w'))"

text \<open>
  The \<^verbatim>\<open>except\<close> clause catches \<^verbatim>\<open>RequestException\<close> only: it prints the message
  and returns the empty list. Every other exception propagates.
\<close>

definition get_all_flights ::
  "EasyJetCollector \<Rightarrow> network \<Rightarrow> string \<Rightarrow> string \<Rightarrow> world
   \<Rightarrow> (pyerr + flight_row list) \<times> world" where
  "get_all_flights self net origin_airport date w =
     (case get_all_flights_try self net origin_airport date w of
        (Inl (RequestException msg), w') \<Rightarrow>
          (Inr [], print (''Error fetching flight data: '' @ msg) w')
      | (res, w') \<Rightarrow> (res, w'))"


subsection \<open>save_to_csv\<close>

text \<open>
  \<^verbatim>\<open>csv.writer\<close> with the default dialect: fields are separated by a comma, a record
  ends with CR LF, and a field is quoted (its quotes doubled) when it contains a comma,
  a quote, CR or LF. A record of one empty field is written as two quotes.
\<close>

definition CR :: char where "CR = CHR 0x0D"

definition LF :: char where "LF = CHR 0x0A"

definition quotechar :: char where "quotechar = CHR 0x22"

definition csv_field :: "string \<Rightarrow> string" where
  "csv_field field =
     (if list_ex (\<lambda>c. c \<in> {CHR '','', quotechar, CR, LF}) field
      then [quotechar] @ concat (map (\<lambda>c. if c = quotechar then [c, c] else [c]) field)
           @ [quotechar]
      else field)"

fun join :: "string \<Rightarrow> string list \<Rightarrow> string" where
  "join sep [] = []"
| "join sep [x] = x"
| "join sep (x # y # ys) = x @ sep @ join sep (y # ys)"

definition csv_record :: "string list \<Rightarrow> string" where
  "csv_record flds =
     (if flds = [[]] then [quotechar, quotechar] else join '','' (map csv_field flds))
     @ [CR, LF]"

text \<open>
  The cells of a row. A string is written as it is, a number as \<^verbatim>\<open>str\<close> gives it:
  \<open>repr\<close> for a finite float, and \<^verbatim>\<open>inf\<close> for the sentinel.
\<close>

datatype cell = CStr string | CNum price

definition cell_text :: "(real \<Rightarrow> string) \<Rightarrow> cell \<Rightarrow> string" where
  "cell_text repr c =
     (case c of CStr s \<Rightarrow> s | CNum (Fin x) \<Rightarrow> repr x | CNum PInf \<Rightarrow> ''inf'')"

definition row_cells :: "row \<Rightarrow> cell list" where
  "row_cells r = (case r of (distance, dest, lowest_price) \<Rightarrow>
     [CNum (Fin distance), CStr dest, CNum lowest_price])"

text \<open>\<^verbatim>\<open>writerow\<close> appends one record to the open file, \<^verbatim>\<open>writerows\<close> each in turn.\<close>

definition writerow :: "(real \<Rightarrow> string) \<Rightarrow> cell list \<Rightarrow> string \<Rightarrow> string" where
  "writerow repr cells file = file @ csv_record (map (cell_text repr) cells)"

fun writerows :: "(real \<Rightarrow> string) \<Rightarrow> cell list list \<Rightarrow> string \<Rightarrow> string" where
  "writerows repr [] file = file"
| "writerows repr (r # rs) file = writerows repr rs (writerow repr r file)"

text \<open>
  \<^verbatim>\<open>open(filename, 'w')\<close> raises \<^verbatim>\<open>OSError\<close> for a path that cannot be written, and
  otherwise starts from the empty file; the file holds what was written when the
  \<^verbatim>\<open>with\<close> block ends.
\<close>

definition save_to_csv ::
  "(real \<Rightarrow> string) \<Rightarrow> EasyJetCollector \<Rightarrow> row list \<Rightarrow> string \<Rightarrow> world
   \<Rightarrow> (pyerr + unit) \<times> world" where
  "save_to_csv repr self data filename w =
     (if filename \<in> unwritable w then (Inl OSError, w)
      else
        let file = [];
            file = writerow repr
                     [CStr ''Distance (km)'', CStr ''Destination'', CStr ''Lowest Price''] file;
            file = writerows repr (map row_cells data) file
        in (Inr (), w\<lparr>files := (files w)(filename \<mapsto> file)\<rparr>))"

subsection \<open>The line main prints for a row\<close>

text \<open>Format specifications: \<^verbatim>\<open>{s:11}\<close> for a string, \<^verbatim>\<open>{x:11.2f}\<close> for a number.\<close>

definition ljust :: "nat \<Rightarrow> string \<Rightarrow> string" where
  "ljust width s = s @ replicate (width - length s) CHR '' ''"

definition rjust :: "nat \<Rightarrow> string \<Rightarrow> string" where
  "rjust width s = replicate (width - length s) CHR '' '' @ s"

definition zfill :: "nat \<Rightarrow> string \<Rightarrow> string" where
  "zfill width s = replicate (width - length s) CHR ''0'' @ s"

definition digit_char :: "nat \<Rightarrow> char" where
  "digit_char d = ''0123456789'' ! d"

fun digits :: "nat \<Rightarrow> string" where
  "digits n = (if n < 10 then [digit_char n] else digits (n div 10) @ [digit_char (n mod 10)])"

declare digits.simps [simp del]

text \<open>
  The presentation type \<^verbatim>\<open>f\<close> with a precision: the number is rounded to that many
  decimals and written with all of them; infinity is written \<^verbatim>\<open>inf\<close>.
\<close>

definition format_f :: "nat \<Rightarrow> price \<Rightarrow> string" where
  "format_f prec p =
     (case p of
        PInf \<Rightarrow> ''inf''
      | Fin x \<Rightarrow>
         let n = nat (round_half_even (\<bar>x\<bar> * 10 ^ prec));
             ip = n div 10 ^ prec;
             fp = n mod 10 ^ prec
         in (if x < 0 then ''-'' else []) @ digits ip
            @ (if prec = 0 then [] else ''.'' @ zfill prec (digits fp)))"

text \<open>\<^verbatim>\<open>f"{distance:11.2f} | {destination:11} | {price:5.2f}"\<close>\<close>

definition format_row :: "row \<Rightarrow> string" where
  "format_row r = (case r of (distance, dest, price) \<Rightarrow>
     rjust 11 (format_f 2 (Fin distance)) @ '' | '' @ ljust 11 dest @ '' | ''
     @ rjust 5 (format_f 2 price))"

subsection \<open>Notions used to state the properties\<close>

text \<open>The distance of a row: the value \<^verbatim>\<open>calculate_distance\<close> returns.\<close>

definition the_distance :: "EasyJetCollector \<Rightarrow> string \<Rightarrow> string \<Rightarrow> real" where
  "the_distance self org dest = (case calculate_distance self org dest of Inr x \<Rightarrow> x | Inl e \<Rightarrow> 0)"

text \<open>The world after more exchanges.\<close>

definition logged :: "world \<Rightarrow> (request \<times> response) list \<Rightarrow> world" where
  "logged w new = w\<lparr>exchanges := exchanges w @ new\<rparr>"

text \<open>
  A response that makes the three statements of a request raise a \<^verbatim>\<open>RequestException\<close>:
  no response, a status from 400 to 599, or a body that is not JSON.
\<close>

definition request_raises :: "response \<Rightarrow> bool" where
  "request_raises resp =
     (case resp of
        NoResponse msg \<Rightarrow> True
      | Got r \<Rightarrow> (400 \<le> status_code r \<and> status_code r < 600) \<or> json_body r = None)"

text \<open>What the three statements of a request yield on a response.\<close>

definition fetch_result :: "response \<Rightarrow> string \<Rightarrow> pyerr + pyval" where
  "fetch_result resp key =
     (case resp of
        NoResponse msg \<Rightarrow> Inl (RequestException msg)
      | Got r \<Rightarrow>
         (case raise_for_status r of
            Inl e \<Rightarrow> Inl e
          | Inr u \<Rightarrow> (case json r of Inl e \<Rightarrow> Inl e | Inr data \<Rightarrow> dict_get data key (VList []))))"

text \<open>
  One pass of the loop, read off the network: the destination of a route record, the
  request made for it at position \<open>n\<close> with its response, the value of \<^verbatim>\<open>flights\<close> in
  that response, and what the pass adds to \<^verbatim>\<open>flight_data\<close>.
\<close>

definition destination_of :: "pyval \<Rightarrow> pyval" where
  "destination_of route = (case py_getitem route ''destination'' of Inr d \<Rightarrow> d | Inl e \<Rightarrow> VNone)"

definition flights_exchange ::
  "EasyJetCollector \<Rightarrow> network \<Rightarrow> string \<Rightarrow> string \<Rightarrow> nat \<Rightarrow> pyval \<Rightarrow> request \<times> response" where
  "flights_exchange self net org date n route =
     (flights_request self org (destination_of route) date,
      net n (flights_request self org (destination_of route) date))"

definition flights_value :: "response \<Rightarrow> pyval" where
  "flights_value resp = (case fetch_result resp ''flights'' of Inr v \<Rightarrow> v | Inl e \<Rightarrow> VNone)"

definition rows_for :: "EasyJetCollector \<Rightarrow> string \<Rightarrow> pyval \<Rightarrow> response \<Rightarrow> pyerr + flight_row list" where
  "rows_for self org destination resp =
     (case fetch_result resp ''flights'' of
        Inl e \<Rightarrow> Inl e
      | Inr flights \<Rightarrow>
         if truthy flights then
           (case lowest_price_of flights of
              Inl e \<Rightarrow> Inl e
            | Inr p \<Rightarrow>
               (case calculate_distance_of self org destination of
                  Inl e \<Rightarrow> Inl e
                | Inr d \<Rightarrow> Inr [(d, destination, p)]))
         else Inr [])"

definition visit ::
  "EasyJetCollector \<Rightarrow> network \<Rightarrow> string \<Rightarrow> string \<Rightarrow> nat \<Rightarrow> pyval \<Rightarrow> pyerr + flight_row list" where
  "visit self net org date n route =
     (case py_getitem route ''destination'' of
        Inl e \<Rightarrow> Inl e
      | Inr d \<Rightarrow> rows_for self org d (net n (flights_request self org d date)))"

text \<open>
  The route records the loop iterates over, read off the response to the routes request
  at position \<open>n\<close>; and each of them with the value of \<^verbatim>\<open>flights\<close> in the response to
  its request, the first of which is made at position \<open>n\<close>.
\<close>

definition routes_result :: "EasyJetCollector \<Rightarrow> network \<Rightarrow> string \<Rightarrow> nat \<Rightarrow> pyerr + pyval list" where
  "routes_result self net org n =
     (case fetch_result (net n (routes_request self org)) ''routes'' of
        Inl e \<Rightarrow> Inl e
      | Inr all_destinations \<Rightarrow> py_iter all_destinations)"

definition routes_of :: "EasyJetCollector \<Rightarrow> network \<Rightarrow> string \<Rightarrow> nat \<Rightarrow> pyval list" where
  "routes_of self net org n = (case routes_result self net org n of Inr rs \<Rightarrow> rs | Inl e \<Rightarrow> [])"

definition visits ::
  "EasyJetCollector \<Rightarrow> network \<Rightarrow> string \<Rightarrow> string \<Rightarrow> nat \<Rightarrow> pyval list \<Rightarrow> (pyval \<times> pyval) list" where
  "visits self net org date n routes =
     map (\<lambda>(i, route). (route, flights_value (snd (flights_exchange self net org date i route))))
       (enumerate n routes)"

text \<open>
  The passes of the loop over route records complete, the first of them making its
  request at position \<open>n\<close>: each record has a destination, and its pass raises nothing.
\<close>

definition passes_complete ::
  "EasyJetCollector \<Rightarrow> network \<Rightarrow> string \<Rightarrow> string \<Rightarrow> nat \<Rightarrow> pyval list \<Rightarrow> bool" where
  "passes_complete self net org date n routes =
     list_all (\<lambda>(i, route). case visit self net org date i route of Inr new \<Rightarrow> True | Inl e \<Rightarrow> False)
       (enumerate n routes)"

text \<open>
  A request of a run that starts at position \<open>n\<close> raises a \<^verbatim>\<open>RequestException\<close>: the
  routes request; or the flights request of a route record, which is made when the passes
  over the records before it have completed and the record has a destination.
\<close>

definition flights_request_raises ::
  "EasyJetCollector \<Rightarrow> network \<Rightarrow> string \<Rightarrow> string \<Rightarrow> nat \<Rightarrow> pyval \<Rightarrow> bool" where
  "flights_request_raises self net org date n route =
     (case py_getitem route ''destination'' of
        Inl e \<Rightarrow> False
      | Inr d \<Rightarrow> request_raises (net n (flights_request self org d date)))"

definition a_request_raises ::
  "EasyJetCollector \<Rightarrow> network \<Rightarrow> string \<Rightarrow> string \<Rightarrow> nat \<Rightarrow> bool" where
  "a_request_raises self net org date n =
     (request_raises (net n (routes_request self org))
      \<or> list_ex (\<lambda>(k, route).
             passes_complete self net org date (Suc n) (take k (routes_of self net org n))
             \<and> flights_request_raises self net org date (Suc n + k) route)
           (enumerate 0 (routes_of self net org n)))"

text \<open>
  A request that fails at the transport level in the words of the specification: a
  connection error, or a status that is not one of 200 to 299.
\<close>

definition transport_failure :: "response \<Rightarrow> bool" where
  "transport_failure resp =
     (case resp of
        NoResponse msg \<Rightarrow> True
      | Got r \<Rightarrow> status_code r < 200 \<or> 300 \<le> status_code r)"

text \<open>
  Fares as prices, in the words of the specification. The fare of a flight record is the
  number in the field \<^verbatim>\<open>lowestFare\<close> of its field \<^verbatim>\<open>pricing\<close>, and the infinite
  sentinel when \<^verbatim>\<open>pricing\<close> or \<^verbatim>\<open>lowestFare\<close> is missing; a flight that is no record,
  a \<^verbatim>\<open>pricing\<close> that is no record and a \<^verbatim>\<open>lowestFare\<close> that is no number have no fare.
  The lowest fare is the minimum of the fares; it is the minimum of the fares that are
  present, and the sentinel when none is.
\<close>

definition price_value :: "price \<Rightarrow> pyval" where
  "price_value p = (case p of Fin x \<Rightarrow> VNum x | PInf \<Rightarrow> VInf)"

definition fare_price :: "pyval \<Rightarrow> price option" where
  "fare_price flight =
     (case flight of
        VDict items \<Rightarrow>
          (case map_of items ''pricing'' of
             None \<Rightarrow> Some PInf
           | Some (VDict pricing) \<Rightarrow>
               (case map_of pricing ''lowestFare'' of
                  None \<Rightarrow> Some PInf
                | Some (VNum x) \<Rightarrow> Some (Fin x)
                | Some VInf \<Rightarrow> Some PInf
                | Some other \<Rightarrow> None)
           | Some other \<Rightarrow> None)
      | _ \<Rightarrow> None)"

definition flight_list :: "pyval \<Rightarrow> pyval list" where
  "flight_list flights = (case flights of VList fls \<Rightarrow> fls | _ \<Rightarrow> [])"

definition numeric_fares :: "pyval \<Rightarrow> bool" where
  "numeric_fares flights = list_all (\<lambda>fl. fare_price fl \<noteq> None) (flight_list flights)"

definition min_fare :: "pyval \<Rightarrow> price" where
  "min_fare flights = Min (set (map (the \<circ> fare_price) (flight_list flights)))"

definition present_fares :: "pyval \<Rightarrow> real list" where
  "present_fares flights =
     List.map_filter (\<lambda>fl. case fare_price fl of Some (Fin x) \<Rightarrow> Some x | _ \<Rightarrow> None)
       (flight_list flights)"

definition min_present_fare :: "pyval \<Rightarrow> price" where
  "min_present_fare flights =
     (if present_fares flights = [] then PInf else Fin (Min (set (present_fares flights))))"

definition nonempty_list :: "pyval \<Rightarrow> bool" where
  "nonempty_list v = (case v of VList (x # xs) \<Rightarrow> True | _ \<Rightarrow> False)"

text \<open>
  The values of \<^verbatim>\<open>flights\<close> for which a destination is skipped: the empty list, and
  the other values that count as false.
\<close>

definition empty_value :: "pyval \<Rightarrow> bool" where
  "empty_value v =
     (v = VList [] \<or> v = VNone \<or> v = VBool False \<or> v = VNum 0 \<or> v = VStr [] \<or> v = VDict [])"


text \<open>
  The text of a number with 2 decimals: a sign for a negative number, the digits of the
  integer part, a point and exactly two digits, denoting a value within half a hundredth
  of the number.
\<close>

definition two_decimal_text :: "real \<Rightarrow> string \<Rightarrow> bool" where
  "two_decimal_text x s =
     (\<exists>n. s = (if x < 0 then ''-'' else []) @ digits (n div 100) @ ''.''
               @ [digit_char (n mod 100 div 10), digit_char (n mod 10)]
          \<and> \<bar>real n / 100 - \<bar>x\<bar>\<bar> \<le> 1 / 200)"

subsection \<open>Example servers\<close>

definition fresh_world :: world where
  "fresh_world = \<lparr> exchanges = [], stdout = [], files = Map.empty, unwritable = {} \<rparr>"

definition ok_reply :: "pyval \<Rightarrow> response" where
  "ok_reply data = Got (Reply 200 [] (Some data))"

definition route_record :: "string \<Rightarrow> pyval" where
  "route_record dest = VDict [(''destination'', VStr dest)]"

definition flight_record :: "real \<Rightarrow> pyval" where
  "flight_record fare = VDict [(''pricing'', VDict [(''lowestFare'', VNum fare)])]"

definition routes_body :: "pyval list \<Rightarrow> pyval" where
  "routes_body routes = VDict [(''routes'', VList routes)]"

definition flights_body :: "pyval \<Rightarrow> pyval" where
  "flights_body flights = VDict [(''flights'', flights)]"

definition destination_param :: "request \<Rightarrow> pyval option" where
  "destination_param req = map_of (params req) ''destination''"

text \<open>
  Three routes. The first has three flights, one of them without \<^verbatim>\<open>pricing\<close>; the
  second has no flights; the only flight of the third has no \<^verbatim>\<open>lowestFare\<close>.
\<close>

definition example_net :: network where
  "example_net n req =
     (if url req = ''https://api.easyjet.com/v1/routes'' then
        ok_reply (routes_body [route_record ''BCN'', route_record ''AMS'', route_record ''CDG''])
      else if destination_param req = Some (VStr ''BCN'') then
        ok_reply (flights_body (VList [flight_record 95, VDict [], flight_record 80]))
      else if destination_param req = Some (VStr ''AMS'') then
        ok_reply (flights_body (VList []))
      else if destination_param req = Some (VStr ''CDG'') then
        ok_reply (flights_body (VList [VDict [(''pricing'', VDict [])]]))
      else Got (Reply 404 ''404 Client Error'' None))"

text \<open>
  The third request is answered with status 503, after a row for the first route has
  been built; the third route record has no destination.
\<close>

definition failing_net :: network where
  "failing_net n req =
     (if n = 0 then ok_reply (routes_body [route_record ''BCN'', route_record ''CDG'', VDict []])
      else if n = 1 then ok_reply (flights_body (VList [flight_record 80]))
      else Got (Reply 503 ''503 Server Error'' None))"

text \<open>Every request succeeds, and the second route record has no destination.\<close>

definition nodest_net :: network where
  "nodest_net n req =
     (if n = 0 then ok_reply (routes_body [route_record ''BCN'', VDict [], route_record ''CDG''])
      else ok_reply (flights_body (VList [flight_record 80])))"


text \<open>Two routes; the flights of the first are \<^verbatim>\<open>null\<close>.\<close>

definition null_flights_net :: network where
  "null_flights_net n req =
     (if n = 0 then ok_reply (routes_body [route_record ''BCN'', route_record ''CDG''])
      else if n = 1 then ok_reply (flights_body VNone)
      else ok_reply (flights_body (VList [flight_record 80])))"


text \<open>A stand-in for \<^verbatim>\<open>repr\<close> on the numbers of the examples.\<close>

definition example_repr :: "real \<Rightarrow> string" where
  "example_repr x =
     (if x = 1109.59 then ''1109.59'' else if x = 307.82 then ''307.82''
      else if x = 120 then ''120.0'' else ''0.0'')"

subsection \<open>Properties of calculate_distance\<close>

lemma dom_init: "dom (airport_coords (init k c)) = {''LGW'', ''BCN'', ''CDG''}"
  by (auto simp: init_def load_airport_coordinates_def split: if_splits)

lemma atan2_zero_pos: "0 < x \<Longrightarrow> atan2 0 x = 0"
  by (simp add: atan2_def)

lemma round_half_even_0: "round_half_even 0 = 0"
  by (simp add: round_half_even_def)

lemma py_round_0: "py_round 0 n = 0"
  by (simp add: py_round_def round_half_even_0)

text \<open>
  Claim C2. When the origin or the destination is not a key of the coordinate table,
  \<^verbatim>\<open>calculate_distance\<close> returns exactly 0, whatever the other argument is.
\<close>

theorem calculate_distance_unknown:
  "origin \<notin> dom (airport_coords self) \<or> dest \<notin> dom (airport_coords self)
   \<Longrightarrow> calculate_distance self origin dest = Inr 0"
  by (simp add: calculate_distance_def)

theorem calculate_distance_unknown_witness:
  "''XXX'' \<notin> dom (airport_coords (init ''k'' ''c''))
   \<and> calculate_distance (init ''k'' ''c'') ''XXX'' ''BCN'' = Inr 0
   \<and> calculate_distance (init ''k'' ''c'') ''BCN'' ''XXX'' = Inr 0"
  using calculate_distance_unknown [of "''XXX''" "init ''k'' ''c''" "''BCN''"]
        calculate_distance_unknown [of "''BCN''" "init ''k'' ''c''" "''XXX''"]
  by (simp add: dom_init)

text \<open>
  Claim C6. For an airport of the coordinate table, the distance to itself is exactly 0.
\<close>

theorem calculate_distance_self:
  "a \<in> dom (airport_coords self) \<Longrightarrow> calculate_distance self a a = Inr 0"
  by (simp add: calculate_distance_def py_sqrt_def atan2_zero_pos py_round_0
        split: prod.splits)

theorem calculate_distance_self_witness:
  "''LGW'' \<in> dom (airport_coords (init ''k'' ''c''))
   \<and> calculate_distance (init ''k'' ''c'') ''LGW'' ''LGW'' = Inr 0"
  using calculate_distance_self [of "''LGW''" "init ''k'' ''c''"]
  by (simp add: dom_init)

subsection \<open>Symmetry of calculate_distance\<close>

lemma hav_sym: "(sin ((p2 - p1) / 2))\<^sup>2 = (sin ((p1 - p2) / 2))\<^sup>2" for p1 p2 :: real
proof -
  have "(p2 - p1) / 2 = - ((p1 - p2) / 2)" by (simp add: field_simps)
  then show ?thesis by (simp only: sin_minus power2_minus)
qed

lemma haversine_sym:
  "(sin ((p2 - p1) / 2))\<^sup>2 + cos p1 * cos p2 * (sin ((l2 - l1) / 2))\<^sup>2
   = (sin ((p1 - p2) / 2))\<^sup>2 + cos p2 * cos p1 * (sin ((l1 - l2) / 2))\<^sup>2"
  for p1 p2 l1 l2 :: real
  by (simp only: hav_sym [of p2 p1] hav_sym [of l2 l1] mult.commute [of "cos p1" "cos p2"])

text \<open>
  Claim C5. For two airports of the coordinate table, the distance from the first to the
  second equals the distance from the second to the first. With floats idealised as reals
  the two results are equal, so they agree up to any tolerance.
\<close>

theorem calculate_distance_symmetric:
  assumes "a \<in> dom (airport_coords self)" and "b \<in> dom (airport_coords self)"
  shows "calculate_distance self a b = calculate_distance self b a"
proof -
  obtain lat1 lon1 where a: "airport_coords self a = Some (lat1, lon1)"
    using assms(1) by fastforce
  obtain lat2 lon2 where b: "airport_coords self b = Some (lat2, lon2)"
    using assms(2) by fastforce
  show ?thesis
    unfolding calculate_distance_def Let_def
    using assms
    by (simp only: a b option.sel prod.case simp_thms if_False
          haversine_sym [of "radians lat2" "radians lat1" "radians lon2" "radians lon1"])
qed

theorem calculate_distance_symmetric_witness:
  "''LGW'' \<in> dom (airport_coords (init ''k'' ''c''))
   \<and> ''BCN'' \<in> dom (airport_coords (init ''k'' ''c''))
   \<and> calculate_distance (init ''k'' ''c'') ''LGW'' ''BCN''
     = calculate_distance (init ''k'' ''c'') ''BCN'' ''LGW''"
  using calculate_distance_symmetric [of "''LGW''" "init ''k'' ''c''" "''BCN''"]
  by (simp add: dom_init)

text \<open>The argument of both square roots lies between 0 and 1, so neither raises.\<close>

lemma cos_mult_mid:
  fixes x y :: real
  shows "cos (x - y) * cos (x + y) = (cos x)\<^sup>2 - (sin y)\<^sup>2"
proof -
  have prod: "(a * b + c * d) * (a * b - c * d) = a\<^sup>2 * b\<^sup>2 - c\<^sup>2 * d\<^sup>2" for a b c d :: real
    by (simp add: power2_eq_square algebra_simps)
  have "cos (x - y) * cos (x + y) = (cos x * cos y + sin x * sin y) * (cos x * cos y - sin x * sin y)"
    by (simp only: cos_diff cos_add)
  also have "\<dots> = (cos x)\<^sup>2 * (cos y)\<^sup>2 - (sin x)\<^sup>2 * (sin y)\<^sup>2"
    by (rule prod)
  also have "\<dots> = (cos x)\<^sup>2 * (1 - (sin y)\<^sup>2) - (1 - (cos x)\<^sup>2) * (sin y)\<^sup>2"
    by (simp only: cos_squared_eq [of y] sin_squared_eq [of x])
  also have "\<dots> = (cos x)\<^sup>2 - (sin y)\<^sup>2"
    by (simp add: algebra_simps)
  finally show ?thesis .
qed

lemma haversine_range:
  fixes p1 p2 l :: real
  defines "a \<equiv> (sin ((p2 - p1) / 2))\<^sup>2 + cos p1 * cos p2 * (sin (l / 2))\<^sup>2"
  shows "0 \<le> a" and "a \<le> 1"
proof -
  define x where "x = (p1 + p2) / 2"
  define y where "y = (p2 - p1) / 2"
  define S where "S = (sin y)\<^sup>2"
  define C where "C = (cos x)\<^sup>2"
  define s where "s = (sin (l / 2))\<^sup>2"
  have p: "p1 = x - y" "p2 = x + y"
    by (simp_all add: x_def y_def field_simps)
  have "cos p1 * cos p2 = C - S"
    unfolding p C_def S_def by (rule cos_mult_mid)
  then have "a = S + (C - S) * s"
    by (simp add: a_def S_def s_def y_def)
  then have a: "a = S * (1 - s) + C * s"
    by (simp add: algebra_simps)
  have sq: "(sin t)\<^sup>2 \<le> 1" "(cos t)\<^sup>2 \<le> 1" for t :: real
    using sin_cos_squared_add [of t] zero_le_power2 [of "cos t"] zero_le_power2 [of "sin t"]
    by linarith+
  have S: "0 \<le> S" "S \<le> 1" and C: "0 \<le> C" "C \<le> 1" and s: "0 \<le> s" "s \<le> 1"
    by (simp_all add: S_def C_def s_def sq)
  have "0 \<le> S * (1 - s)" "0 \<le> C * s"
    using S C s by simp_all
  then show "0 \<le> a" by (simp add: a)
  have "S * (1 - s) \<le> 1 * (1 - s)" "C * s \<le> 1 * s"
    using S C s by (intro mult_right_mono; simp)+
  then show "a \<le> 1" by (simp add: a)
qed

lemma calculate_distance_total: "\<exists>x. calculate_distance self org dest = Inr x"
proof -
  have "\<not> (sin ((p2 - p1) / 2))\<^sup>2 + cos p1 * cos p2 * (sin (l / 2))\<^sup>2 < 0"
       "\<not> 1 - ((sin ((p2 - p1) / 2))\<^sup>2 + cos p1 * cos p2 * (sin (l / 2))\<^sup>2) < 0"
    for p1 p2 l :: real
    using haversine_range [of p2 p1 l] by simp_all
  then show ?thesis
    by (simp add: calculate_distance_def py_sqrt_def Let_def split: prod.splits)
qed

lemma calculate_distance_eq: "calculate_distance self org dest = Inr (the_distance self org dest)"
  using calculate_distance_total [of self org dest] by (auto simp: the_distance_def)

subsection \<open>Prices and min\<close>

lemma less_price_simps [simp]:
  "Fin a < Fin b \<longleftrightarrow> a < b" "Fin a < PInf" "\<not> PInf < p"
  by (auto simp: less_price_def)

lemma min_Fin: "min (Fin a) (Fin b) = Fin (min a b)"
  by (simp add: min_def)

lemma min_PInf: "min PInf p = p" "min p PInf = p"
  by (cases p; simp add: min_def)+

subsection \<open>The loop of get_all_flights\<close>

lemma logged_Nil: "logged w [] = w"
  by (simp add: logged_def)

lemma logged_logged: "logged (logged w xs) ys = logged w (xs @ ys)"
  by (simp add: logged_def)

lemma length_exchanges_logged [simp]:
  "length (exchanges (logged w xs)) = length (exchanges w) + length xs"
  by (simp add: logged_def)

lemma stdout_logged [simp]: "stdout (logged w xs) = stdout w"
  by (simp add: logged_def)

lemma get_json_field_eq:
  "get_json_field net req key w
   = (fetch_result (net (length (exchanges w)) req) key,
      logged w [(req, net (length (exchanges w)) req)])"
  by (simp add: get_json_field_def requests_get_def fetch_result_def logged_def Let_def
        split: response.splits sum.splits)

lemma fetch_result_raises:
  "request_raises resp \<Longrightarrow> \<exists>msg. fetch_result resp key = Inl (RequestException msg)"
  by (auto simp: request_raises_def fetch_result_def raise_for_status_def json_def
        split: response.splits)

lemma for_routes_nodest:
  "py_getitem route ''destination'' = Inl e \<Longrightarrow>
   for_routes self net org date (route # rest) acc w = (Inl e, w)"
  by simp

lemma for_routes_dest:
  "py_getitem route ''destination'' = Inr d \<Longrightarrow>
   for_routes self net org date (route # rest) acc w =
     (case rows_for self org d (net (length (exchanges w)) (flights_request self org d date)) of
        Inl e \<Rightarrow> (Inl e, logged w [flights_exchange self net org date (length (exchanges w)) route])
      | Inr new \<Rightarrow>
         for_routes self net org date rest (acc @ new)
           (logged w [flights_exchange self net org date (length (exchanges w)) route]))"
  by (simp add: get_json_field_eq rows_for_def flights_exchange_def destination_of_def
        split: sum.splits)

declare for_routes.simps(2) [simp del]

lemma rows_for_raises:
  "request_raises resp \<Longrightarrow> \<exists>msg. rows_for self org d resp = Inl (RequestException msg)"
  using fetch_result_raises [of resp "''flights''"] by (auto simp: rows_for_def)

lemma for_routes_stdout:
  "stdout (snd (for_routes self net org date routes acc w)) = stdout w"
proof (induction routes arbitrary: acc w)
  case Nil
  then show ?case by simp
next
  case (Cons route rest)
  show ?case
  proof (cases "py_getitem route ''destination''")
    case (Inl e)
    then show ?thesis by (simp add: for_routes_nodest)
  next
    case (Inr d)
    then show ?thesis by (simp add: for_routes_dest Cons.IH split: sum.splits)
  qed
qed

lemma visit_dest:
  "py_getitem route ''destination'' = Inr d \<Longrightarrow>
   visit self net org date n route = rows_for self org d (snd (flights_exchange self net org date n route))"
  by (simp add: visit_def flights_exchange_def destination_of_def)

lemma for_routes_Inr:
  "for_routes self net org date routes acc w = (Inr rows, w') \<Longrightarrow>
   \<exists>news. list_all2 (\<lambda>(i, route) new. visit self net org date i route = Inr new)
             (enumerate (length (exchanges w)) routes) news
      \<and> rows = acc @ concat news
      \<and> w' = logged w (map (\<lambda>(i, route). flights_exchange self net org date i route)
                (enumerate (length (exchanges w)) routes))"
proof (induction routes arbitrary: acc w)
  case Nil
  then show ?case by (simp add: logged_Nil)
next
  case (Cons route rest)
  from Cons.prems obtain d where d: "py_getitem route ''destination'' = Inr d"
    by (cases "py_getitem route ''destination''") (auto simp: for_routes_nodest)
  let ?n = "length (exchanges w)"
  let ?x = "flights_exchange self net org date ?n route"
  have x: "snd ?x = net ?n (flights_request self org d date)"
    using d by (simp add: flights_exchange_def destination_of_def)
  from Cons.prems d x obtain new where new: "rows_for self org d (snd ?x) = Inr new"
    by (cases "rows_for self org d (snd ?x)") (auto simp: for_routes_dest)
  with Cons.prems d x
  have "for_routes self net org date rest (acc @ new) (logged w [?x]) = (Inr rows, w')"
    by (simp add: for_routes_dest)
  from Cons.IH [OF this] obtain news where news:
    "list_all2 (\<lambda>(i, route) new. visit self net org date i route = Inr new)
       (enumerate (Suc ?n) rest) news"
    "rows = (acc @ new) @ concat news"
    "w' = logged (logged w [?x]) (map (\<lambda>(i, route). flights_exchange self net org date i route)
                (enumerate (Suc ?n) rest))"
    by auto
  have "visit self net org date ?n route = Inr new"
    using d new by (simp add: visit_dest)
  with news show ?case
    by (intro exI [of _ "new # news"]) (simp add: logged_logged)
qed

subsection \<open>One pass\<close>

lemma lowest_fare_dict:
  "lowest_fare fl = Inr v \<Longrightarrow> \<exists>items. fl = VDict items"
  by (cases fl) (simp_all add: lowest_fare_def dict_get_def)

lemma py_min_Inr_Cons: "py_min f xs = Inr p \<Longrightarrow> \<exists>x rest v. xs = x # rest \<and> f x = Inr v"
  by (cases xs) (auto simp: py_min_def split: sum.splits)

lemma lowest_price_of_list:
  assumes "lowest_price_of v = Inr p"
  shows "nonempty_list v"
proof -
  from assms obtain items where items: "py_iter v = Inr items" "py_min lowest_fare items = Inr p"
    by (auto simp: lowest_price_of_def split: sum.splits)
  from py_min_Inr_Cons [OF items(2)] obtain x rest u where x: "items = x # rest" "lowest_fare x = Inr u"
    by blast
  from lowest_fare_dict [OF x(2)] obtain kvs where "x = VDict kvs" by blast
  with items(1) x(1) show ?thesis
    by (cases v) (auto simp: py_iter_def nonempty_list_def split: list.splits)
qed

lemma visit_Inr:
  assumes "visit self net org date n route = Inr new"
  defines "v \<equiv> flights_value (snd (flights_exchange self net org date n route))"
  shows "py_getitem route ''destination'' = Inr (destination_of route)"
    and "\<not> request_raises (snd (flights_exchange self net org date n route))"
    and "\<not> truthy v \<Longrightarrow> new = []"
    and "truthy v \<Longrightarrow> \<exists>d p. new = [(d, destination_of route, p)] \<and> lowest_price_of v = Inr p"
proof -
  from assms(1) obtain d where d: "py_getitem route ''destination'' = Inr d"
    by (cases "py_getitem route ''destination''") (auto simp: visit_def)
  then show dest: "py_getitem route ''destination'' = Inr (destination_of route)"
    by (simp add: destination_of_def)
  let ?resp = "snd (flights_exchange self net org date n route)"
  from assms(1) d have rows: "rows_for self org d ?resp = Inr new"
    by (simp add: visit_dest)
  then show "\<not> request_raises ?resp"
    using rows_for_raises [of ?resp self org d] by auto
  from rows obtain fv where fv: "fetch_result ?resp ''flights'' = Inr fv"
    by (cases "fetch_result ?resp ''flights''") (auto simp: rows_for_def)
  then have v: "v = fv" by (simp add: v_def flights_value_def)
  from d have dd: "destination_of route = d" by (simp add: destination_of_def)
  show "\<not> truthy v \<Longrightarrow> new = []"
    using rows fv v by (simp add: rows_for_def)
  show "truthy v \<Longrightarrow> \<exists>d p. new = [(d, destination_of route, p)] \<and> lowest_price_of v = Inr p"
    using rows fv v dd by (auto simp: rows_for_def split: sum.splits)
qed

subsection \<open>Numeric fares\<close>






subsection \<open>The whole run\<close>

lemma get_all_flights_try_eq:
  "get_all_flights_try self net org date w =
     (case routes_result self net org (length (exchanges w)) of
        Inl e \<Rightarrow> (Inl e, logged w [(routes_request self org,
                       net (length (exchanges w)) (routes_request self org))])
      | Inr routes \<Rightarrow>
         for_routes self net org date routes []
           (logged w [(routes_request self org,
              net (length (exchanges w)) (routes_request self org))]))"
  by (simp add: get_all_flights_try_def get_json_field_eq routes_result_def split: sum.splits)

lemma get_all_flights_try_stdout:
  "stdout (snd (get_all_flights_try self net org date w)) = stdout w"
  using for_routes_stdout [of self net org date _ "[]"]
  by (simp add: get_all_flights_try_eq split: sum.splits)

lemma get_all_flights_quiet:
  assumes run: "get_all_flights self net org date w = (Inr rows, w')"
    and quiet: "stdout w' = stdout w"
  obtains routes where
    "routes_result self net org (length (exchanges w)) = Inr routes"
    "for_routes self net org date routes []
       (logged w [(routes_request self org, net (length (exchanges w)) (routes_request self org))])
     = (Inr rows, w')"
proof -
  obtain r1 w1 where tr: "get_all_flights_try self net org date w = (r1, w1)"
    by fastforce
  with get_all_flights_try_stdout [of self net org date w] have w1: "stdout w1 = stdout w"
    by simp
  have "r1 = Inr rows \<and> w' = w1"
  proof (cases r1)
    case (Inr a)
    with run tr show ?thesis by (simp add: get_all_flights_def)
  next
    case (Inl e)
    show ?thesis
    proof (cases e)
      case (RequestException msg)
      with run tr Inl have "w' = print (''Error fetching flight data: '' @ msg) w1"
        by (simp add: get_all_flights_def)
      with quiet w1 show ?thesis by (simp add: print_def)
    qed (insert run tr Inl, simp_all add: get_all_flights_def)
  qed
  with tr have tr': "get_all_flights_try self net org date w = (Inr rows, w')" by simp
  then obtain routes where "routes_result self net org (length (exchanges w)) = Inr routes"
    by (cases "routes_result self net org (length (exchanges w))")
       (auto simp: get_all_flights_try_eq)
  with tr' show ?thesis
    by (intro that [of routes]) (simp_all add: get_all_flights_try_eq)
qed

subsection \<open>The rows of a run that returns\<close>

lemma visits_Nil [simp]: "visits self net org date n [] = []"
  by (simp add: visits_def)

lemma visits_Cons [simp]:
  "visits self net org date n (route # rest)
   = (route, flights_value (snd (flights_exchange self net org date n route)))
     # visits self net org date (Suc n) rest"
  by (simp add: visits_def)

lemma length_visits [simp]: "length (visits self net org date n routes) = length routes"
  by (simp add: visits_def)

lemma nonempty_list_truthy: "nonempty_list v \<Longrightarrow> truthy v"
  by (auto simp: nonempty_list_def truthy_def split: pyval.splits list.splits)

lemma empty_value_truthy: "empty_value v \<longleftrightarrow> \<not> truthy v"
  by (cases v) (auto simp: empty_value_def truthy_def)

lemma rows_destinations:
  "list_all2 (\<lambda>(i, route) new. visit self net org date i route = Inr new)
     (enumerate n routes) news \<Longrightarrow>
   map (fst \<circ> snd) (concat news)
   = map (destination_of \<circ> fst) (filter (truthy \<circ> snd) (visits self net org date n routes))"
proof (induction routes arbitrary: n news)
  case Nil
  then show ?case by simp
next
  case (Cons route rest)
  from Cons.prems obtain new more where news: "news = new # more"
    and new: "visit self net org date n route = Inr new"
    and more: "list_all2 (\<lambda>(i, route) new. visit self net org date i route = Inr new)
                 (enumerate (Suc n) rest) more"
    by (auto simp: list_all2_Cons1)
  let ?v = "flights_value (snd (flights_exchange self net org date n route))"
  have "map (fst \<circ> snd) new = (if truthy ?v then [destination_of route] else [])"
    using visit_Inr(3,4) [OF new] by auto
  with Cons.IH [OF more] show ?case
    by (simp add: news comp_def)
qed

lemma rows_length:
  "list_all2 (\<lambda>(i, route) new. visit self net org date i route = Inr new)
     (enumerate n routes) news \<Longrightarrow>
   length (concat news) = length (filter (truthy \<circ> snd) (visits self net org date n routes))"
  using rows_destinations [of self net org date n routes news, THEN arg_cong, of length]
  by simp






subsection \<open>Passes that complete, and a request that raises\<close>

lemma for_routes_append:
  "for_routes self net org date (xs @ ys) acc w =
     (case for_routes self net org date xs acc w of
        (Inl e, w') \<Rightarrow> (Inl e, w')
      | (Inr rows, w') \<Rightarrow> for_routes self net org date ys rows w')"
proof (induction xs arbitrary: acc w)
  case Nil
  then show ?case by simp
next
  case (Cons route rest)
  show ?case
  proof (cases "py_getitem route ''destination''")
    case (Inl e)
    then show ?thesis by (simp add: for_routes_nodest)
  next
    case (Inr d)
    then show ?thesis by (simp add: for_routes_dest Cons.IH split: sum.splits)
  qed
qed

lemma passes_complete_Nil [simp]: "passes_complete self net org date n []"
  by (simp add: passes_complete_def)

lemma passes_complete_Cons:
  "passes_complete self net org date n (route # rest) \<longleftrightarrow>
     (\<exists>new. visit self net org date n route = Inr new)
     \<and> passes_complete self net org date (Suc n) rest"
  by (auto simp: passes_complete_def split: sum.splits)

lemma for_routes_complete:
  "passes_complete self net org date (length (exchanges w)) routes \<Longrightarrow>
   \<exists>rows. for_routes self net org date routes acc w
     = (Inr rows, logged w (map (\<lambda>(i, route). flights_exchange self net org date i route)
                (enumerate (length (exchanges w)) routes)))"
proof (induction routes arbitrary: acc w)
  case Nil
  then show ?case by (simp add: logged_Nil)
next
  case (Cons route rest)
  let ?n = "length (exchanges w)"
  let ?x = "flights_exchange self net org date ?n route"
  from Cons.prems obtain new where new: "visit self net org date ?n route = Inr new"
    and rest: "passes_complete self net org date (Suc ?n) rest"
    by (auto simp: passes_complete_Cons)
  from new obtain d where d: "py_getitem route ''destination'' = Inr d"
    by (cases "py_getitem route ''destination''") (auto simp: visit_def)
  with new have rows: "rows_for self org d (net ?n (flights_request self org d date)) = Inr new"
    by (simp add: visit_def)
  from rest have "passes_complete self net org date (length (exchanges (logged w [?x]))) rest"
    by simp
  from Cons.IH [OF this, of "acc @ new"] d rows show ?case
    by (auto simp: for_routes_dest logged_logged)
qed


lemma for_routes_missing:
  assumes "py_getitem route ''destination'' = Inl e"
  shows "for_routes self net org date (route # rest) acc w = (Inl e, w)"
  using assms by (simp add: for_routes_nodest)

lemma routes_of_Inr:
  "k < length (routes_of self net org n) \<Longrightarrow>
   routes_result self net org n = Inr (routes_of self net org n)"
  by (cases "routes_result self net org n") (simp_all add: routes_of_def)

lemma for_routes_at:
  assumes k: "k < length routes"
    and complete: "passes_complete self net org date (length (exchanges w)) (take k routes)"
  shows "\<exists>rows w1. length (exchanges w1) = length (exchanges w) + k \<and> stdout w1 = stdout w
     \<and> for_routes self net org date routes acc w
       = for_routes self net org date (routes ! k # drop (Suc k) routes) rows w1"
proof -
  from for_routes_complete [OF complete, of acc] obtain rows where
    rows: "for_routes self net org date (take k routes) acc w
     = (Inr rows, logged w (map (\<lambda>(i, route). flights_exchange self net org date i route)
                (enumerate (length (exchanges w)) (take k routes))))"
    by blast
  let ?w1 = "logged w (map (\<lambda>(i, route). flights_exchange self net org date i route)
                (enumerate (length (exchanges w)) (take k routes)))"
  have "routes = take k routes @ routes ! k # drop (Suc k) routes"
    using k by (simp add: id_take_nth_drop)
  then have "for_routes self net org date routes acc w
     = for_routes self net org date (take k routes @ routes ! k # drop (Suc k) routes) acc w"
    by simp
  also have "\<dots> = for_routes self net org date (routes ! k # drop (Suc k) routes) rows ?w1"
    by (simp only: for_routes_append rows prod.case sum.case)
  finally show ?thesis
    using k by (intro exI [of _ rows] exI [of _ ?w1]) simp
qed



subsection \<open>The rows of a run\<close>

lemma get_all_flights_passes:
  assumes run: "get_all_flights self net org date w = (Inr rows, w')"
    and quiet: "stdout w' = stdout w"
  shows "\<exists>news. list_all2 (\<lambda>(i, route) new. visit self net org date i route = Inr new)
             (enumerate (Suc (length (exchanges w))) (routes_of self net org (length (exchanges w))))
             news
      \<and> rows = concat news"
proof -
  let ?n = "length (exchanges w)"
  let ?x = "(routes_request self org, net ?n (routes_request self org))"
  from run quiet obtain routes where routes: "routes_result self net org ?n = Inr routes"
    and loop: "for_routes self net org date routes [] (logged w [?x]) = (Inr rows, w')"
    by (rule get_all_flights_quiet)
  from for_routes_Inr [OF loop] routes show ?thesis
    by (auto simp: routes_of_def)
qed

lemma visits_truthy:
  "list_all2 (\<lambda>(i, route) new. visit self net org date i route = Inr new)
     (enumerate n routes) news \<Longrightarrow>
   filter (truthy \<circ> snd) (visits self net org date n routes)
   = filter (nonempty_list \<circ> snd) (visits self net org date n routes)"
proof (induction routes arbitrary: n news)
  case Nil
  then show ?case by simp
next
  case (Cons route rest)
  from Cons.prems obtain new more where news: "news = new # more"
    and new: "visit self net org date n route = Inr new"
    and more: "list_all2 (\<lambda>(i, route) new. visit self net org date i route = Inr new)
                 (enumerate (Suc n) rest) more"
    by (auto simp: list_all2_Cons1)
  let ?v = "flights_value (snd (flights_exchange self net org date n route))"
  have "truthy ?v \<longleftrightarrow> nonempty_list ?v"
    using visit_Inr(4) [OF new] lowest_price_of_list [of ?v] nonempty_list_truthy [of ?v]
    by blast
  with Cons.IH [OF more] show ?case by simp
qed

subsection \<open>Evaluating the example servers\<close>

lemma base_url_init: "base_url (init k c) = ''https://api.easyjet.com/v1''"
  by (simp add: init_def)

lemma headers_init:
  "headers (init k c) = [(''Authorization'', ''Bearer '' @ k), (''X-Client-ID'', c),
                         (''Accept'', ''application/json'')]"
  by (simp add: init_def)

lemmas run_simps =
  get_all_flights_def get_all_flights_try_def get_json_field_def requests_get_def
  raise_for_status_def json_def dict_get_def py_getitem_def py_iter_def truthy_def
  for_routes.simps(2) routes_request_def flights_request_def base_url_init headers_init
  fresh_world_def lowest_price_of_def lowest_fare_def py_min_def num_of_def
  calculate_distance_of_def calculate_distance_eq dom_init print_def
  ok_reply_def route_record_def flight_record_def routes_body_def flights_body_def
  destination_param_def

lemmas notion_simps =
  routes_of_def routes_result_def fetch_result_def visits_def flights_exchange_def
  destination_of_def flights_value_def passes_complete_def visit_def rows_for_def
  flights_request_raises_def a_request_raises_def request_raises_def transport_failure_def
  numeric_fares_def fare_price_def flight_list_def min_fare_def min_present_fare_def
  present_fares_def nonempty_list_def price_value_def List.map_filter_simps min_Fin min_PInf

subsection \<open>Properties of get_all_flights\<close>






text \<open>
  Claim C4, as stated, fails: a destination whose \<^verbatim>\<open>flights\<close> value is \<^verbatim>\<open>null\<close> has
  no row either, so a run can succeed with fewer rows than the number of routes minus
  the number of empty flights lists.
\<close>

theorem get_all_flights_rows_counterexample:
  "fst (get_all_flights (init ''k'' ''c'') null_flights_net ''LGW'' ''2024-12-01'' fresh_world)
     = Inr [(the_distance (init ''k'' ''c'') ''LGW'' ''CDG'', VStr ''CDG'', VNum 80)]
   \<and> stdout (snd (get_all_flights (init ''k'' ''c'') null_flights_net ''LGW'' ''2024-12-01'' fresh_world))
     = stdout fresh_world
   \<and> visits (init ''k'' ''c'') null_flights_net ''LGW'' ''2024-12-01'' 1
       (routes_of (init ''k'' ''c'') null_flights_net ''LGW'' 0)
     = [(route_record ''BCN'', VNone), (route_record ''CDG'', VList [flight_record 80])]
   \<and> length (projr (fst (get_all_flights (init ''k'' ''c'') null_flights_net ''LGW'' ''2024-12-01''
        fresh_world)))
     \<noteq> length (routes_of (init ''k'' ''c'') null_flights_net ''LGW'' 0)
       - length (filter (\<lambda>(route, flights). flights = VList [])
           (visits (init ''k'' ''c'') null_flights_net ''LGW'' ''2024-12-01'' 1
              (routes_of (init ''k'' ''c'') null_flights_net ''LGW'' 0)))"
  by (simp add: run_simps notion_simps null_flights_net_def)

text \<open>
  Claim C4, amended. In a run that returns rows without having caught an exception, the
  destinations of the rows are those of the routes whose flights value is a non-empty
  list, in the order of the routes in the response to the routes request. A destination
  whose flights value is an empty list, or another value that counts as false (\<^verbatim>\<open>null\<close>,
  \<^verbatim>\<open>false\<close>, 0, an empty string, an empty object), has no row, and the number of rows
  is the number of routes minus the number of these flights values.
\<close>

theorem get_all_flights_rows:
  assumes run: "get_all_flights self net org date w = (Inr rows, w')"
    and quiet: "stdout w' = stdout w"
  shows "map (fst \<circ> snd) rows
         = map (destination_of \<circ> fst)
             (filter (nonempty_list \<circ> snd)
                (visits self net org date (Suc (length (exchanges w)))
                   (routes_of self net org (length (exchanges w)))))
       \<and> length rows
         = length (routes_of self net org (length (exchanges w)))
           - length (filter (empty_value \<circ> snd)
               (visits self net org date (Suc (length (exchanges w)))
                  (routes_of self net org (length (exchanges w)))))"
proof -
  let ?routes = "routes_of self net org (length (exchanges w))"
  let ?visits = "visits self net org date (Suc (length (exchanges w))) ?routes"
  from get_all_flights_passes [OF run quiet] obtain news where
    news: "list_all2 (\<lambda>(i, route) new. visit self net org date i route = Inr new)
             (enumerate (Suc (length (exchanges w))) ?routes) news"
    and rows: "rows = concat news"
    by blast
  have truthy: "filter (truthy \<circ> snd) ?visits = filter (nonempty_list \<circ> snd) ?visits"
    using news by (rule visits_truthy)
  have "map (fst \<circ> snd) rows = map (destination_of \<circ> fst) (filter (truthy \<circ> snd) ?visits)"
    unfolding rows using news by (rule rows_destinations)
  then have 1: "map (fst \<circ> snd) rows
      = map (destination_of \<circ> fst) (filter (nonempty_list \<circ> snd) ?visits)"
    by (simp only: truthy)
  have "length rows = length (filter (truthy \<circ> snd) ?visits)"
    unfolding rows using news by (rule rows_length)
  moreover have "length (filter (truthy \<circ> snd) ?visits)
       + length (filter (empty_value \<circ> snd) ?visits) = length ?visits"
    using sum_length_filter_compl [of "truthy \<circ> snd" ?visits]
    by (simp add: comp_def empty_value_truthy)
  ultimately have 2: "length rows
       = length ?routes - length (filter (empty_value \<circ> snd) ?visits)"
    by simp
  from 1 2 show ?thesis by (intro conjI)
qed

theorem get_all_flights_rows_witness:
  "fst (get_all_flights (init ''k'' ''c'') example_net ''LGW'' ''2024-12-01'' fresh_world)
     = Inr [(the_distance (init ''k'' ''c'') ''LGW'' ''BCN'', VStr ''BCN'', VNum 80),
            (the_distance (init ''k'' ''c'') ''LGW'' ''CDG'', VStr ''CDG'', VInf)]
   \<and> stdout (snd (get_all_flights (init ''k'' ''c'') example_net ''LGW'' ''2024-12-01'' fresh_world))
     = stdout fresh_world
   \<and> map (destination_of \<circ> fst)
       (filter (nonempty_list \<circ> snd)
          (visits (init ''k'' ''c'') example_net ''LGW'' ''2024-12-01'' 1
             (routes_of (init ''k'' ''c'') example_net ''LGW'' 0)))
     = [VStr ''BCN'', VStr ''CDG'']
   \<and> length (routes_of (init ''k'' ''c'') example_net ''LGW'' 0)
       - length (filter (empty_value \<circ> snd)
           (visits (init ''k'' ''c'') example_net ''LGW'' ''2024-12-01'' 1
              (routes_of (init ''k'' ''c'') example_net ''LGW'' 0)))
     = 2"
proof -
  let ?run = "get_all_flights (init ''k'' ''c'') example_net ''LGW'' ''2024-12-01'' fresh_world"
  let ?rows = "[(the_distance (init ''k'' ''c'') ''LGW'' ''BCN'', VStr ''BCN'', VNum 80),
                (the_distance (init ''k'' ''c'') ''LGW'' ''CDG'', VStr ''CDG'', VInf)]"
  have rows: "fst ?run = Inr ?rows"
    by (simp add: run_simps example_net_def)
  have quiet: "stdout (snd ?run) = stdout fresh_world"
    by (simp add: run_simps example_net_def)
  have "?run = (Inr ?rows, snd ?run)"
    using rows by (simp add: prod_eq_iff)
  from get_all_flights_rows [OF this quiet] rows quiet show ?thesis
    by (simp add: fresh_world_def)
qed

text \<open>
  Claim C10, as stated, fails: a route record without \<^verbatim>\<open>destination\<close> is not reached
  when the flights request of an earlier route is answered with status 503, and the run
  returns the empty list.
\<close>

theorem get_all_flights_missing_destination_counterexample:
  "routes_of (init ''k'' ''c'') failing_net ''LGW'' 0 ! 2 = VDict []
   \<and> fst (get_all_flights (init ''k'' ''c'') failing_net ''LGW'' ''2024-12-01'' fresh_world) = Inr []
   \<and> fst (get_all_flights (init ''k'' ''c'') failing_net ''LGW'' ''2024-12-01'' fresh_world)
     \<noteq> Inl (KeyError ''destination'')"
  by (simp add: run_simps notion_simps failing_net_def)

text \<open>
  Claim C10, amended. When a route record in the response to the routes request has no
  \<^verbatim>\<open>destination\<close> field and the passes of the loop over the records before it
  complete (each of them has a destination, its flights request raises nothing, and
  nothing is raised while its row is built), \<^verbatim>\<open>get_all_flights\<close> raises \<^verbatim>\<open>KeyError\<close>,
  which the \<^verbatim>\<open>except\<close> clause does not catch: it neither returns the empty list nor
  skips the record.
\<close>

theorem get_all_flights_missing_destination:
  assumes k: "k < length (routes_of self net org (length (exchanges w)))"
    and dict: "routes_of self net org (length (exchanges w)) ! k = VDict items"
    and missing: "''destination'' \<notin> fst ` set items"
    and complete: "passes_complete self net org date (Suc (length (exchanges w)))
                     (take k (routes_of self net org (length (exchanges w))))"
  shows "fst (get_all_flights self net org date w) = Inl (KeyError ''destination'')"
proof -
  let ?n = "length (exchanges w)"
  let ?x = "(routes_request self org, net ?n (routes_request self org))"
  let ?routes = "routes_of self net org ?n"
  from routes_of_Inr [OF k] have try_eq:
    "get_all_flights_try self net org date w
     = for_routes self net org date ?routes [] (logged w [?x])"
    by (simp add: get_all_flights_try_eq)
  from complete have "passes_complete self net org date (length (exchanges (logged w [?x])))
      (take k ?routes)"
    by simp
  from for_routes_at [OF k this, of "[]"] obtain rows w1 where
    eq: "for_routes self net org date ?routes [] (logged w [?x])
       = for_routes self net org date (?routes ! k # drop (Suc k) ?routes) rows w1"
    by auto
  from dict missing have "py_getitem (?routes ! k) ''destination'' = Inl (KeyError ''destination'')"
    by (simp add: py_getitem_def map_of_eq_None_iff [THEN iffD2])
  from for_routes_missing [OF this] have
    "get_all_flights_try self net org date w = (Inl (KeyError ''destination''), w1)"
    by (simp add: try_eq eq)
  then show ?thesis by (simp add: get_all_flights_def)
qed

theorem get_all_flights_missing_destination_witness:
  "routes_of (init ''k'' ''c'') nodest_net ''LGW'' 0
     = [route_record ''BCN'', VDict [], route_record ''CDG'']
   \<and> passes_complete (init ''k'' ''c'') nodest_net ''LGW'' ''2024-12-01'' 1 [route_record ''BCN'']
   \<and> fst (get_all_flights (init ''k'' ''c'') nodest_net ''LGW'' ''2024-12-01'' fresh_world)
     = Inl (KeyError ''destination'')"
proof -
  let ?routes = "routes_of (init ''k'' ''c'') nodest_net ''LGW'' (length (exchanges fresh_world))"
  have routes: "?routes = [route_record ''BCN'', VDict [], route_record ''CDG'']"
    by (simp add: run_simps notion_simps nodest_net_def)
  have complete: "passes_complete (init ''k'' ''c'') nodest_net ''LGW'' ''2024-12-01'' 1
      [route_record ''BCN'']"
    by (simp add: run_simps notion_simps nodest_net_def)
  have 1: "1 < length ?routes" by (simp add: routes)
  have 2: "?routes ! 1 = VDict []" by (simp add: routes)
  have 3: "''destination'' \<notin> fst ` set ([] :: (string \<times> pyval) list)" by simp
  have 4: "passes_complete (init ''k'' ''c'') nodest_net ''LGW'' ''2024-12-01''
             (Suc (length (exchanges fresh_world))) (take 1 ?routes)"
    using complete by (simp add: routes) (simp add: fresh_world_def)
  from get_all_flights_missing_destination [OF 1 2 3 4] routes complete show ?thesis
    by (simp add: fresh_world_def)
qed


subsection \<open>save_to_csv\<close>

lemma writerows_eq:
  "writerows repr rs buf = buf @ concat (map (\<lambda>r. csv_record (map (cell_text repr) r)) rs)"
  by (induction rs arbitrary: buf) (simp_all add: writerow_def)

lemma csv_record3:
  "csv_record [a, b, c] = csv_field a @ '','' @ csv_field b @ '','' @ csv_field c @ [CR, LF]"
  by (simp add: csv_record_def)

lemma header_record:
  "csv_record [''Distance (km)'', ''Destination'', ''Lowest Price'']
   = ''Distance (km),Destination,Lowest Price'' @ [CR, LF]"
  by (simp add: csv_record3 csv_field_def quotechar_def CR_def LF_def)

text \<open>
  Claim C8. For every list of rows, when the file can be opened, \<^verbatim>\<open>save_to_csv\<close> leaves
  in it the header record (the three column names \<^verbatim>\<open>Distance (km)\<close>,
  \<^verbatim>\<open>Destination\<close>, \<^verbatim>\<open>Lowest Price\<close>, separated by commas) and then one record for
  each row, in the order of the list; for the empty list the file holds the header
  record and nothing else.
\<close>

theorem save_to_csv_content:
  assumes "filename \<notin> unwritable w"
  shows "save_to_csv repr self data filename w
         = (Inr (), w\<lparr>files := (files w)(filename \<mapsto>
              ''Distance (km),Destination,Lowest Price'' @ [CR, LF]
              @ concat (map (\<lambda>(distance, dest, price).
                   csv_field (repr distance) @ '','' @ csv_field dest @ '',''
                   @ csv_field (cell_text repr (CNum price)) @ [CR, LF]) data))\<rparr>)
       \<and> save_to_csv repr self [] filename w
         = (Inr (), w\<lparr>files := (files w)(filename \<mapsto>
              ''Distance (km),Destination,Lowest Price'' @ [CR, LF])\<rparr>)"
proof -
  have row: "(\<lambda>r. csv_record (map (cell_text repr) r)) \<circ> row_cells
     = (\<lambda>(distance, dest, price).
          csv_field (repr distance) @ '','' @ csv_field dest @ '',''
          @ csv_field (cell_text repr (CNum price)) @ [CR, LF])"
    by (auto simp: fun_eq_iff row_cells_def csv_record3 cell_text_def)
  have head: "writerow repr [CStr ''Distance (km)'', CStr ''Destination'', CStr ''Lowest Price''] []
     = ''Distance (km),Destination,Lowest Price'' @ [CR, LF]"
    using header_record by (simp add: writerow_def cell_text_def)
  show ?thesis
    using assms by (simp add: save_to_csv_def Let_def head writerows_eq row del: append.simps)
qed

theorem save_to_csv_content_witness:
  "''easyjet_flights.csv'' \<notin> unwritable fresh_world
   \<and> files (snd (save_to_csv example_repr (init ''k'' ''c'')
                  [(307.82, ''CDG'', Fin 120), (1109.59, ''Barcelona, El Prat'', PInf)]
                  ''easyjet_flights.csv'' fresh_world)) ''easyjet_flights.csv''
     = Some (''Distance (km),Destination,Lowest Price'' @ [CR, LF]
             @ ''307.82,CDG,120.0'' @ [CR, LF]
             @ ''1109.59,'' @ [quotechar] @ ''Barcelona, El Prat'' @ [quotechar] @ '',inf''
             @ [CR, LF])
   \<and> files (snd (save_to_csv example_repr (init ''k'' ''c'') []
                  ''easyjet_flights.csv'' fresh_world)) ''easyjet_flights.csv''
     = Some (''Distance (km),Destination,Lowest Price'' @ [CR, LF])"
proof -
  have w: "''easyjet_flights.csv'' \<notin> unwritable fresh_world"
    by (simp add: fresh_world_def)
  from save_to_csv_content [OF w, of example_repr "init ''k'' ''c''"
      "[(307.82, ''CDG'', Fin 120), (1109.59, ''Barcelona, El Prat'', PInf)]"] w
  show ?thesis
    by (simp add: example_repr_def csv_field_def cell_text_def quotechar_def CR_def LF_def)
qed

subsection \<open>The printed table\<close>

lemma digits_less: "n < 10 \<Longrightarrow> digits n = [digit_char n]"
  by (subst digits.simps) simp

lemma digits_ge: "10 \<le> n \<Longrightarrow> digits n = digits (n div 10) @ [digit_char (n mod 10)]"
  by (subst digits.simps) simp

lemma replicate_numeral: "replicate (numeral k) x = x # replicate (pred_numeral k) x"
  by (simp add: numeral_eq_Suc)

lemma round_half_even_close: "\<bar>of_int (round_half_even y) - y\<bar> \<le> 1 / 2"
  unfolding round_half_even_def Let_def by (auto; linarith)

lemma round_half_even_nonneg: "0 \<le> y \<Longrightarrow> 0 \<le> round_half_even y"
  unfolding round_half_even_def Let_def by (auto; linarith)

lemma zfill_digits2:
  assumes "fp < 100"
  shows "zfill 2 (digits fp) = [digit_char (fp div 10), digit_char (fp mod 10)]"
proof (cases "fp < 10")
  case True
  then show ?thesis
    by (simp add: digits_less zfill_def digit_char_def numeral_2_eq_2)
next
  case False
  with assms have "fp div 10 < 10" by simp
  with False show ?thesis
    by (simp add: digits_ge digits_less zfill_def)
qed

lemma format_f_2: "two_decimal_text x (format_f 2 (Fin x))"
proof -
  define n where "n = nat (round_half_even (\<bar>x\<bar> * 100))"
  have nn: "0 \<le> round_half_even (\<bar>x\<bar> * 100)"
    by (rule round_half_even_nonneg) simp
  have shape: "format_f 2 (Fin x) = (if x < 0 then ''-'' else []) @ digits (n div 100) @ ''.''
               @ [digit_char (n mod 100 div 10), digit_char (n mod 10)]"
    by (simp add: format_f_def Let_def n_def [symmetric] zfill_digits2 mod_mod_cancel)
  have "\<bar>of_int (round_half_even (\<bar>x\<bar> * 100)) - \<bar>x\<bar> * 100\<bar> \<le> 1 / 2"
    by (rule round_half_even_close)
  moreover have "real n = of_int (round_half_even (\<bar>x\<bar> * 100))"
    using nn by (simp add: n_def)
  ultimately have "\<bar>real n - \<bar>x\<bar> * 100\<bar> \<le> 1 / 2"
    by simp
  then have "\<bar>real n / 100 - \<bar>x\<bar>\<bar> \<le> 1 / 200"
    by (simp add: abs_le_iff field_simps)
  with shape show ?thesis
    unfolding two_decimal_text_def by blast
qed

lemma format_f_distance: "format_f 2 (Fin 1109.59) = ''1109.59''"
  apply (simp add: format_f_def round_half_even_def)
  apply (simp add: digits_less digits_ge digit_char_def zfill_def)
  done

lemma format_f_price: "format_f 2 (Fin 80) = ''80.00''"
  apply (simp add: format_f_def round_half_even_def)
  apply (simp add: digits_less digits_ge digit_char_def zfill_def)
  done

text \<open>
  Claim C9, as stated, fails: a destination longer than 11 characters is printed whole,
  a shorter one is followed (not preceded) by the padding, and the infinite price is
  printed as \<^verbatim>\<open>inf\<close>, without decimals.
\<close>

theorem format_row_counterexample:
  "format_row (1109.59, ''LONDON-GATWICK'', Fin 80) = ''    1109.59 | LONDON-GATWICK | 80.00''
   \<and> format_row (1109.59, ''BCN'', Fin 80) = ''    1109.59 | BCN         | 80.00''
   \<and> format_row (1109.59, ''BCN'', PInf) = ''    1109.59 | BCN         |   inf''"
  unfolding format_row_def prod.case format_f_distance format_f_price
  by (simp add: rjust_def ljust_def replicate_numeral format_f_def)

text \<open>
  Claim C9, amended. For every row, the printed line is the distance with 2 decimals,
  right-aligned in at least 11 characters, then the destination, whole, followed by
  spaces up to 11 characters, then the price, right-aligned in at least 5 characters:
  with 2 decimals when it is a number, and \<^verbatim>\<open>inf\<close> when it is the infinite sentinel.
\<close>

theorem format_row_fields:
  "\<exists>D P. format_row (distance, dest, price)
            = rjust 11 D @ '' | '' @ (dest @ replicate (11 - length dest) CHR '' '') @ '' | ''
              @ rjust 5 P
        \<and> two_decimal_text distance D
        \<and> (case price of Fin x \<Rightarrow> two_decimal_text x P | PInf \<Rightarrow> P = ''inf'')"
proof (intro exI conjI)
  show "format_row (distance, dest, price)
            = rjust 11 (format_f 2 (Fin distance)) @ '' | ''
              @ (dest @ replicate (11 - length dest) CHR '' '') @ '' | ''
              @ rjust 5 (format_f 2 price)"
    by (simp add: format_row_def ljust_def)
  show "two_decimal_text distance (format_f 2 (Fin distance))"
    by (rule format_f_2)
  show "case price of Fin x \<Rightarrow> two_decimal_text x (format_f 2 price) | PInf \<Rightarrow> format_f 2 price = ''inf''"
    by (cases price) (simp_all add: format_f_2, simp add: format_f_def)
qed

subsection \<open>The distance from London Gatwick to Barcelona\<close>

text \<open>
  Bounds on the sine and the cosine from their Taylor polynomials, and on \<open>pi\<close> from
  the sine of \<open>pi / 6\<close>; with them the haversine term and the central angle of the two
  airports are enclosed in intervals with rational ends.
\<close>

lemma sin_poly5: "(\<Sum>m<5. sin_coeff m * x ^ m) = x - x ^ 3 / 6" for x :: real
  by (simp add: eval_nat_numeral sin_coeff_Suc cos_coeff_Suc)

lemma sin_poly7: "(\<Sum>m<7. sin_coeff m * x ^ m) = x - x ^ 3 / 6 + x ^ 5 / 120" for x :: real
  by (simp add: eval_nat_numeral sin_coeff_Suc cos_coeff_Suc)

lemma cos_poly10:
  "(\<Sum>m<10. cos_coeff m * x ^ m) = 1 - x ^ 2 / 2 + x ^ 4 / 24 - x ^ 6 / 720 + x ^ 8 / 40320"
  for x :: real
  by (simp add: eval_nat_numeral sin_coeff_Suc cos_coeff_Suc)

lemma sin_bound5: "\<bar>sin x - (x - x ^ 3 / 6)\<bar> \<le> \<bar>x\<bar> ^ 5 / 120" for x :: real
  using Maclaurin_sin_bound [of x 5] by (simp add: sin_poly5 fact_numeral)

lemma sin_bound7: "\<bar>sin x - (x - x ^ 3 / 6 + x ^ 5 / 120)\<bar> \<le> \<bar>x\<bar> ^ 7 / 5040" for x :: real
  using Maclaurin_sin_bound [of x 7] by (simp add: sin_poly7 fact_numeral)

lemma cos_bound10:
  "\<bar>cos x - (1 - x ^ 2 / 2 + x ^ 4 / 24 - x ^ 6 / 720 + x ^ 8 / 40320)\<bar> \<le> \<bar>x\<bar> ^ 10 / 3628800"
  for x :: real
proof -
  obtain t where "cos x = (\<Sum>m<10. cos_coeff m * x ^ m) + (cos (t + 1/2 * real (10::nat) * pi) / fact 10) * x ^ 10"
    using Maclaurin_cos_expansion [of x 10] by blast
  then have "cos x - (1 - x ^ 2 / 2 + x ^ 4 / 24 - x ^ 6 / 720 + x ^ 8 / 40320)
      = cos (t + 1/2 * real (10::nat) * pi) * (x ^ 10 / 3628800)"
    by (simp add: cos_poly10 fact_numeral)
  also have "\<bar>\<dots>\<bar> \<le> 1 * (\<bar>x\<bar> ^ 10 / 3628800)"
    unfolding abs_mult by (intro mult_mono) (simp_all add: power_abs)
  finally show ?thesis by simp
qed

lemma sin_upper7: "sin x \<le> x - x ^ 3 / 6 + x ^ 5 / 120 + \<bar>x\<bar> ^ 7 / 5040" for x :: real
  using sin_bound7 [of x] by linarith

lemma sin_lower7: "x - x ^ 3 / 6 + x ^ 5 / 120 - \<bar>x\<bar> ^ 7 / 5040 \<le> sin x" for x :: real
  using sin_bound7 [of x] by linarith

lemma sin_upper5: "sin x \<le> x - x ^ 3 / 6 + \<bar>x\<bar> ^ 5 / 120" for x :: real
  using sin_bound5 [of x] by linarith

lemma sin_lower5: "x - x ^ 3 / 6 - \<bar>x\<bar> ^ 5 / 120 \<le> sin x" for x :: real
  using sin_bound5 [of x] by linarith

lemma cos_upper10:
  "cos x \<le> 1 - x ^ 2 / 2 + x ^ 4 / 24 - x ^ 6 / 720 + x ^ 8 / 40320 + \<bar>x\<bar> ^ 10 / 3628800"
  for x :: real
  using cos_bound10 [of x] by linarith

lemma cos_lower10:
  "1 - x ^ 2 / 2 + x ^ 4 / 24 - x ^ 6 / 720 + x ^ 8 / 40320 - \<bar>x\<bar> ^ 10 / 3628800 \<le> cos x"
  for x :: real
  using cos_bound10 [of x] by linarith

lemma pi_lower: "3.14154 < pi"
proof (rule ccontr)
  assume "\<not> 3.14154 < pi"
  then have "pi / 6 \<le> 0.52359" by simp
  moreover have "0.52359 \<le> pi / 2" using pi_ge_two by simp
  ultimately have "sin (pi / 6) \<le> sin (0.52359 :: real)"
    by (intro sin_monotone_2pi_le) simp_all
  moreover have "(0.52359::real) - 0.52359 ^ 3 / 6 + 0.52359 ^ 5 / 120 + \<bar>0.52359\<bar> ^ 7 / 5040
      < 1 / 2"
    by (simp add: power_divide)
  then have "sin (0.52359 :: real) < 1 / 2"
    using sin_upper7 [of "0.52359"] by linarith
  ultimately show False by (simp add: sin_30)
qed

lemma pi_upper: "pi < 3.1416"
proof (rule ccontr)
  assume "\<not> pi < 3.1416"
  then have "0.5236 \<le> pi / 6" by simp
  then have "sin (0.5236 :: real) \<le> sin (pi / 6)"
    by (intro sin_monotone_2pi_le) simp_all
  moreover have "1 / 2
      < (0.5236::real) - 0.5236 ^ 3 / 6 + 0.5236 ^ 5 / 120 - \<bar>0.5236\<bar> ^ 7 / 5040"
    by (simp add: power_divide)
  then have "1 / 2 < sin (0.5236 :: real)"
    using sin_lower7 [of "0.5236"] by linarith
  ultimately show False by (simp add: sin_30)
qed

lemma sin_interval:
  fixes x l h :: real
  assumes "0 \<le> l" "l \<le> x" "x \<le> h" "h \<le> 1"
  shows "l - l ^ 3 / 6 - l ^ 5 / 120 \<le> sin x" and "sin x \<le> h - h ^ 3 / 6 + h ^ 5 / 120"
proof -
  have half: "1 \<le> pi / 2" using pi_ge_two by simp
  have "sin l \<le> sin x"
    using assms half by (intro sin_monotone_2pi_le) linarith+
  moreover have "l - l ^ 3 / 6 - l ^ 5 / 120 \<le> sin l"
    using sin_lower5 [of l] assms(1) by simp
  ultimately show "l - l ^ 3 / 6 - l ^ 5 / 120 \<le> sin x" by linarith
  have "sin x \<le> sin h"
    using assms half by (intro sin_monotone_2pi_le) linarith+
  moreover have "sin h \<le> h - h ^ 3 / 6 + h ^ 5 / 120"
    using sin_upper5 [of h] assms by simp
  ultimately show "sin x \<le> h - h ^ 3 / 6 + h ^ 5 / 120" by linarith
qed

lemma cos_interval:
  fixes x l h :: real
  assumes "0 \<le> l" "l \<le> x" "x \<le> h" "h \<le> 3"
  shows "1 - h ^ 2 / 2 + h ^ 4 / 24 - h ^ 6 / 720 + h ^ 8 / 40320 - h ^ 10 / 3628800 \<le> cos x"
    and "cos x \<le> 1 - l ^ 2 / 2 + l ^ 4 / 24 - l ^ 6 / 720 + l ^ 8 / 40320 + l ^ 10 / 3628800"
proof -
  have three: "3 \<le> pi" using pi_lower by simp
  have "cos h \<le> cos x"
    using assms three by (intro cos_monotone_0_pi_le) linarith+
  moreover have "1 - h ^ 2 / 2 + h ^ 4 / 24 - h ^ 6 / 720 + h ^ 8 / 40320 - h ^ 10 / 3628800 \<le> cos h"
    using cos_lower10 [of h] assms by simp
  ultimately show "1 - h ^ 2 / 2 + h ^ 4 / 24 - h ^ 6 / 720 + h ^ 8 / 40320 - h ^ 10 / 3628800 \<le> cos x"
    by linarith
  have "cos x \<le> cos l"
    using assms three by (intro cos_monotone_0_pi_le) linarith+
  moreover have "cos l \<le> 1 - l ^ 2 / 2 + l ^ 4 / 24 - l ^ 6 / 720 + l ^ 8 / 40320 + l ^ 10 / 3628800"
    using cos_upper10 [of l] assms by simp
  ultimately show "cos x \<le> 1 - l ^ 2 / 2 + l ^ 4 / 24 - l ^ 6 / 720 + l ^ 8 / 40320 + l ^ 10 / 3628800"
    by linarith
qed

lemma sin_dlat: "0.085903 \<le> sin (4.92815 * (pi / 180))" "sin (4.92815 * (pi / 180)) \<le> 0.085915"
proof -
  have x: "0.08601 \<le> 4.92815 * (pi / 180)" "4.92815 * (pi / 180) \<le> 0.08602"
    using pi_lower pi_upper by simp_all
  have "(0.085903::real) \<le> 0.08601 - 0.08601 ^ 3 / 6 - 0.08601 ^ 5 / 120"
    by (simp add: power_divide)
  with sin_interval(1) [OF _ x, of ] show "0.085903 \<le> sin (4.92815 * (pi / 180))"
    by simp
  have "(0.08602::real) - 0.08602 ^ 3 / 6 + 0.08602 ^ 5 / 120 \<le> 0.085915"
    by (simp add: power_divide)
  with sin_interval(2) [OF _ x] show "sin (4.92815 * (pi / 180)) \<le> 0.085915"
    by simp
qed

lemma sin_dlon: "0.019767 \<le> sin (1.1327 * (pi / 180))" "sin (1.1327 * (pi / 180)) \<le> 0.019769"
proof -
  have x: "0.019769 \<le> 1.1327 * (pi / 180)" "1.1327 * (pi / 180) \<le> 0.01977"
    using pi_lower pi_upper by simp_all
  have "(0.019767::real) \<le> 0.019769 - 0.019769 ^ 3 / 6 - 0.019769 ^ 5 / 120"
    by (simp add: power_divide)
  with sin_interval(1) [OF _ x] show "0.019767 \<le> sin (1.1327 * (pi / 180))"
    by simp
  have "(0.01977::real) - 0.01977 ^ 3 / 6 + 0.01977 ^ 5 / 120 \<le> 0.019769"
    by (simp add: power_divide)
  with sin_interval(2) [OF _ x] show "sin (1.1327 * (pi / 180)) \<le> 0.019769"
    by simp
qed

lemma cos_lat1: "0.62721 \<le> cos (51.1537 * (pi / 180))" "cos (51.1537 * (pi / 180)) \<le> 0.62725"
proof -
  have x: "0.89278 \<le> 51.1537 * (pi / 180)" "51.1537 * (pi / 180) \<le> 0.89281"
    using pi_lower pi_upper by simp_all
  have "(0.62721::real) \<le> 1 - 0.89281 ^ 2 / 2 + 0.89281 ^ 4 / 24 - 0.89281 ^ 6 / 720
      + 0.89281 ^ 8 / 40320 - 0.89281 ^ 10 / 3628800"
    by (simp add: power_divide)
  with cos_interval(1) [OF _ x] show "0.62721 \<le> cos (51.1537 * (pi / 180))"
    by simp
  have "(1::real) - 0.89278 ^ 2 / 2 + 0.89278 ^ 4 / 24 - 0.89278 ^ 6 / 720
      + 0.89278 ^ 8 / 40320 + 0.89278 ^ 10 / 3628800 \<le> 0.62725"
    by (simp add: power_divide)
  with cos_interval(2) [OF _ x] show "cos (51.1537 * (pi / 180)) \<le> 0.62725"
    by simp
qed

lemma cos_lat2: "0.75128 \<le> cos (41.2974 * (pi / 180))" "cos (41.2974 * (pi / 180)) \<le> 0.75131"
proof -
  have x: "0.72076 \<le> 41.2974 * (pi / 180)" "41.2974 * (pi / 180) \<le> 0.72078"
    using pi_lower pi_upper by simp_all
  have "(0.75128::real) \<le> 1 - 0.72078 ^ 2 / 2 + 0.72078 ^ 4 / 24 - 0.72078 ^ 6 / 720
      + 0.72078 ^ 8 / 40320 - 0.72078 ^ 10 / 3628800"
    by (simp add: power_divide)
  with cos_interval(1) [OF _ x] show "0.75128 \<le> cos (41.2974 * (pi / 180))"
    by simp
  have "(1::real) - 0.72076 ^ 2 / 2 + 0.72076 ^ 4 / 24 - 0.72076 ^ 6 / 720
      + 0.72076 ^ 8 / 40320 + 0.72076 ^ 10 / 3628800 \<le> 0.75131"
    by (simp add: power_divide)
  with cos_interval(2) [OF _ x] show "cos (41.2974 * (pi / 180)) \<le> 0.75131"
    by simp
qed

lemma haversine_lgw_bcn:
  fixes su sv c1 c2 :: real
  defines "su \<equiv> sin (4.92815 * (pi / 180))" and "sv \<equiv> sin (1.1327 * (pi / 180))"
    and "c1 \<equiv> cos (51.1537 * (pi / 180))" and "c2 \<equiv> cos (41.2974 * (pi / 180))"
  shows "0.0075634 \<le> su\<^sup>2 + c1 * c2 * sv\<^sup>2" and "su\<^sup>2 + c1 * c2 * sv\<^sup>2 \<le> 0.0075656"
proof -
  have su: "0.085903 \<le> su" "su \<le> 0.085915" unfolding su_def by (rule sin_dlat)+
  have sv: "0.019767 \<le> sv" "sv \<le> 0.019769" unfolding sv_def by (rule sin_dlon)+
  have c1: "0.62721 \<le> c1" "c1 \<le> 0.62725" unfolding c1_def by (rule cos_lat1)+
  have c2: "0.75128 \<le> c2" "c2 \<le> 0.75131" unfolding c2_def by (rule cos_lat2)+
  have sq_su: "0.085903\<^sup>2 \<le> su\<^sup>2" "su\<^sup>2 \<le> 0.085915\<^sup>2"
    using su by (intro power_mono; simp)+
  have sq_sv: "0.019767\<^sup>2 \<le> sv\<^sup>2" "sv\<^sup>2 \<le> 0.019769\<^sup>2"
    using sv by (intro power_mono; simp)+
  have c_pos: "0 \<le> c1" "0 \<le> c2"
    using c1 c2 by simp_all
  have cc: "0.62721 * 0.75128 \<le> c1 * c2" "c1 * c2 \<le> 0.62725 * 0.75131"
    using c1 c2 c_pos by (intro mult_mono; simp)+
  have cc_pos: "0 \<le> c1 * c2"
    using c_pos by simp
  have lo: "0.62721 * 0.75128 * 0.019767\<^sup>2 \<le> c1 * c2 * sv\<^sup>2"
    using cc(1) sq_sv(1) cc_pos by (rule mult_mono) simp
  have hi: "c1 * c2 * sv\<^sup>2 \<le> 0.62725 * 0.75131 * 0.019769\<^sup>2"
    using cc(2) sq_sv(2) by (rule mult_mono) simp_all
  have "(0.0075634::real) \<le> 0.085903\<^sup>2 + 0.62721 * 0.75128 * 0.019767\<^sup>2"
    by (simp add: power_divide)
  with sq_su(1) lo show "0.0075634 \<le> su\<^sup>2 + c1 * c2 * sv\<^sup>2"
    by linarith
  have "(0.085915::real)\<^sup>2 + 0.62725 * 0.75131 * 0.019769\<^sup>2 \<le> 0.0075656"
    by (simp add: power_divide)
  with sq_su(2) hi show "su\<^sup>2 + c1 * c2 * sv\<^sup>2 \<le> 0.0075656"
    by linarith
qed

lemma sin_arctan_haversine:
  fixes a :: real
  assumes "0 \<le> a" "a < 1"
  shows "sin (arctan (sqrt a / sqrt (1 - a))) = sqrt a"
proof -
  have pos: "0 < 1 - a" using assms by simp
  have "1 + (sqrt a / sqrt (1 - a))\<^sup>2 = 1 / (1 - a)"
    using assms by (simp add: power_divide field_simps)
  then have "sqrt (1 + (sqrt a / sqrt (1 - a))\<^sup>2) = 1 / sqrt (1 - a)"
    by (simp add: real_sqrt_divide)
  then show ?thesis
    using pos by (simp add: sin_arctan)
qed

lemma central_angle_bounds:
  fixes a :: real
  assumes "0.0075634 \<le> a" "a \<le> 0.0075656"
  shows "0.08707 \<le> arctan (sqrt a / sqrt (1 - a))" and "arctan (sqrt a / sqrt (1 - a)) \<le> 0.0871"
proof -
  let ?t = "arctan (sqrt a / sqrt (1 - a))"
  have sin: "sin ?t = sqrt a"
    using assms by (intro sin_arctan_haversine) simp_all
  have range: "- (pi / 2) \<le> ?t" "?t \<le> pi / 2"
    using arctan_bounded [of "sqrt a / sqrt (1 - a)"] by simp_all
  have half: "1 \<le> pi / 2" using pi_ge_two by simp
  have "sin (0.08707::real) \<le> 0.08707 - 0.08707 ^ 3 / 6 + 0.08707 ^ 5 / 120"
    using sin_upper5 [of "0.08707"] by simp
  moreover have "((0.08707::real) - 0.08707 ^ 3 / 6 + 0.08707 ^ 5 / 120)\<^sup>2 \<le> 0.0075634"
    by (simp add: power_divide)
  then have "(0.08707::real) - 0.08707 ^ 3 / 6 + 0.08707 ^ 5 / 120 \<le> sqrt a"
    using assms(1) by (intro real_le_rsqrt) linarith
  ultimately have "sin (0.08707::real) \<le> sin ?t"
    using sin by linarith
  then show "0.08707 \<le> ?t"
    using range half by (subst (asm) sin_mono_le_eq) simp_all
  have "(0.0871::real) - 0.0871 ^ 3 / 6 - 0.0871 ^ 5 / 120 \<le> sin 0.0871"
    using sin_lower5 [of "0.0871"] by simp
  moreover have "(0.0075656::real) \<le> (0.0871 - 0.0871 ^ 3 / 6 - 0.0871 ^ 5 / 120)\<^sup>2"
    "(0::real) \<le> 0.0871 - 0.0871 ^ 3 / 6 - 0.0871 ^ 5 / 120"
    by (simp_all add: power_divide)
  then have "sqrt a \<le> 0.0871 - 0.0871 ^ 3 / 6 - 0.0871 ^ 5 / 120"
    using assms(2) by (intro real_le_lsqrt) linarith+
  ultimately have "sin ?t \<le> sin (0.0871::real)"
    using sin by linarith
  then show "?t \<le> 0.0871"
    using range half by (subst (asm) sin_mono_le_eq) simp_all
qed


lemma py_round_close: "\<bar>py_round x 2 - x\<bar> \<le> 1 / 200"
proof -
  have "\<bar>of_int (round_half_even (x * 100)) - x * 100\<bar> \<le> 1 / 2"
    by (rule round_half_even_close)
  then show ?thesis
    by (simp add: py_round_def abs_le_iff field_simps)
qed

lemma atan2_pos: "0 < x \<Longrightarrow> atan2 y x = arctan (y / x)"
  by (simp add: atan2_def)

lemma lgw_bcn_angles:
  "(radians 41.2974 - radians 51.1537) / 2 = - (4.92815 * (pi / 180))"
  "(radians 2.0833 - radians (- 0.1821)) / 2 = 1.1327 * (pi / 180)"
  "radians 51.1537 = 51.1537 * (pi / 180)"
  "radians 41.2974 = 41.2974 * (pi / 180)"
  by (simp_all add: radians_def)

lemma calculate_distance_lgw_bcn_eq:
  fixes a :: real
  defines "a \<equiv> (sin (4.92815 * (pi / 180)))\<^sup>2
     + cos (51.1537 * (pi / 180)) * cos (41.2974 * (pi / 180)) * (sin (1.1327 * (pi / 180)))\<^sup>2"
  shows "calculate_distance (init api_key client_id) ''LGW'' ''BCN''
         = Inr (py_round (6371 * (2 * arctan (sqrt a / sqrt (1 - a)))) 2)"
proof -
  have a: "0.0075634 \<le> a" "a \<le> 0.0075656"
    unfolding a_def by (rule haversine_lgw_bcn)+
  have coords: "airport_coords (init api_key client_id) ''LGW'' = Some (51.1537, - 0.1821)"
    "airport_coords (init api_key client_id) ''BCN'' = Some (41.2974, 2.0833)"
    by (simp_all add: init_def load_airport_coordinates_def)
  have dom: "''LGW'' \<in> dom (airport_coords (init api_key client_id))"
    "''BCN'' \<in> dom (airport_coords (init api_key client_id))"
    by (simp_all add: dom_init)
  have roots: "py_sqrt a = Inr (sqrt a)" "py_sqrt (1 - a) = Inr (sqrt (1 - a))"
    using a by (simp_all add: py_sqrt_def)
  have "0 < sqrt (1 - a)" using a by simp
  then have angle: "atan2 (sqrt a) (sqrt (1 - a)) = arctan (sqrt a / sqrt (1 - a))"
    by (rule atan2_pos)
  have "(sin ((radians 41.2974 - radians 51.1537) / 2))\<^sup>2 = (sin (4.92815 * (pi / 180)))\<^sup>2"
    by (simp only: lgw_bcn_angles(1) sin_minus power2_minus)
  moreover have "(sin ((radians 2.0833 - radians (- 0.1821)) / 2))\<^sup>2
      = (sin (1.1327 * (pi / 180)))\<^sup>2"
    by (simp only: lgw_bcn_angles(2))
  ultimately have hav: "(sin ((radians 41.2974 - radians 51.1537) / 2))\<^sup>2
      + cos (radians 51.1537) * cos (radians 41.2974)
        * (sin ((radians 2.0833 - radians (- 0.1821)) / 2))\<^sup>2 = a"
    unfolding a_def lgw_bcn_angles(3,4) [symmetric] by (rule arg_cong2 [where f = "\<lambda>x y. x + _ * y"])
  show ?thesis
    unfolding calculate_distance_def Let_def
    by (simp only: dom coords option.sel prod.case simp_thms if_False hav roots sum.case angle)
qed

lemma the_distance_lgw_bcn:
  "1109.4 \<le> the_distance (init api_key client_id) ''LGW'' ''BCN''"
  "the_distance (init api_key client_id) ''LGW'' ''BCN'' \<le> 1109.9"
proof -
  define a :: real where "a = (sin (4.92815 * (pi / 180)))\<^sup>2
     + cos (51.1537 * (pi / 180)) * cos (41.2974 * (pi / 180)) * (sin (1.1327 * (pi / 180)))\<^sup>2"
  define t where "t = arctan (sqrt a / sqrt (1 - a))"
  have a: "0.0075634 \<le> a" "a \<le> 0.0075656"
    unfolding a_def by (rule haversine_lgw_bcn)+
  have t: "0.08707 \<le> t" "t \<le> 0.0871"
    unfolding t_def using a by (rule central_angle_bounds)+
  define X where "X = 6371 * (2 * t)"
  have d: "the_distance (init api_key client_id) ''LGW'' ''BCN'' = py_round X 2"
    unfolding the_distance_def X_def t_def a_def by (simp add: calculate_distance_lgw_bcn_eq)
  have "\<bar>py_round X 2 - X\<bar> \<le> 1 / 200"
    by (rule py_round_close)
  then have r: "X - 1 / 200 \<le> py_round X 2" "py_round X 2 \<le> X + 1 / 200"
    by linarith+
  have X: "1109.43 \<le> X" "X \<le> 1109.86"
    using t by (simp_all add: X_def)
  from r(1) X(1) have "1109.43 - 1 / 200 \<le> py_round X 2" by linarith
  then show "1109.4 \<le> the_distance (init api_key client_id) ''LGW'' ''BCN''"
    unfolding d by simp
  from r(2) X(2) have "py_round X 2 \<le> 1109.86 + 1 / 200" by linarith
  then show "the_distance (init api_key client_id) ''LGW'' ''BCN'' \<le> 1109.9"
    unfolding d by simp
qed

text \<open>
  Claim C7, as stated, fails: the distance from London Gatwick to Barcelona that
  \<^verbatim>\<open>calculate_distance\<close> returns is below 1135 km, so it is not within 2 km of the
  range from 1137 to 1140 km.
\<close>

theorem calculate_distance_lgw_bcn_counterexample:
  "calculate_distance (init ''k'' ''c'') ''LGW'' ''BCN''
     = Inr (the_distance (init ''k'' ''c'') ''LGW'' ''BCN'')
   \<and> the_distance (init ''k'' ''c'') ''LGW'' ''BCN'' < 1137 - 2"
  using the_distance_lgw_bcn(2) [of "''k''" "''c''"]
  by (simp add: calculate_distance_eq)

text \<open>
  Claim C7, amended. The distance from London Gatwick (51.1537, -0.1821) to Barcelona
  (41.2974, 2.0833) that \<^verbatim>\<open>calculate_distance\<close> returns, with the Earth radius 6371
  km, is within 2 km of 1109.6 km: it lies between 1109.4 and 1109.9 km.
\<close>

theorem calculate_distance_lgw_bcn:
  "calculate_distance (init api_key client_id) ''LGW'' ''BCN''
     = Inr (the_distance (init api_key client_id) ''LGW'' ''BCN'')
   \<and> \<bar>the_distance (init api_key client_id) ''LGW'' ''BCN'' - 1109.6\<bar> \<le> 2
   \<and> 1109.4 \<le> the_distance (init api_key client_id) ''LGW'' ''BCN''
   \<and> the_distance (init api_key client_id) ''LGW'' ''BCN'' \<le> 1109.9"
  using the_distance_lgw_bcn [of api_key client_id]
  by (simp add: calculate_distance_eq abs_le_iff)

theorem calculate_distance_lgw_bcn_witness:
  "''LGW'' \<in> dom (airport_coords (init ''k'' ''c''))
   \<and> ''BCN'' \<in> dom (airport_coords (init ''k'' ''c''))
   \<and> calculate_distance (init ''k'' ''c'') ''LGW'' ''BCN''
     = Inr (the_distance (init ''k'' ''c'') ''LGW'' ''BCN'')
   \<and> \<bar>the_distance (init ''k'' ''c'') ''LGW'' ''BCN'' - 1109.6\<bar> \<le> 2"
  using calculate_distance_lgw_bcn [of "''k''" "''c''"]
  by (simp add: dom_init)

end
